theory Spec2Isabelle
  imports Main
begin

section \<open>Python values used by the CV screener\<close>

text \<open>
  A Python \<open>str\<close> is a sequence of Unicode code points, and \<open>len\<close> and slicing count
  code points. A string is therefore a list of code points, each a natural number;
  ASCII literals of the source are written through \<open>of_ascii\<close>.
\<close>

type_synonym pystr = "nat list"

definition of_ascii :: "string \<Rightarrow> pystr" where
  "of_ascii s = map of_char s"

text \<open>
  \<open>str.isspace\<close> for one code point, as CPython decides it: the characters of
  bidirectional class WS, B or S and of general category Zs.
\<close>

definition isspace :: "nat \<Rightarrow> bool" where
  "isspace c \<longleftrightarrow>
     (9 \<le> c \<and> c \<le> 13) \<or> (28 \<le> c \<and> c \<le> 32) \<or> c = 133 \<or> c = 160 \<or> c = 5760 \<or>
     (8192 \<le> c \<and> c \<le> 8202) \<or> c = 8232 \<or> c = 8233 \<or> c = 8239 \<or> c = 8287 \<or>
     c = 12288"

text \<open>\<open>s.strip()\<close>: leading and trailing whitespace removed.\<close>

definition strip :: "pystr \<Rightarrow> pystr" where
  "strip s = rev (dropWhile isspace (rev (dropWhile isspace s)))"

text \<open>
  \<open>os.path.basename\<close> of \<open>posixpath\<close>: \<open>i = p.rfind('/') + 1; return p[i:]\<close>, the
  part after the last slash (code point 47), the whole path when it has none.
\<close>

definition basename :: "pystr \<Rightarrow> pystr" where
  "basename p = rev (takeWhile (\<lambda>c. c \<noteq> 47) (rev p))"

text \<open>
  \<open>a or b\<close> on values that are \<open>None\<close> or a string: \<open>None\<close> and the empty string
  are falsy, so the right operand is taken for both.
\<close>

definition str_or :: "pystr option \<Rightarrow> pystr option \<Rightarrow> pystr option" where
  "str_or a b = (case a of None \<Rightarrow> b | Some s \<Rightarrow> if s = [] then b else Some s)"

text \<open>
  Relevance scores are Python floats. Their arithmetic is not modelled: the three
  operations the source applies to a score are parameters, \<open>fl_round3 x\<close> for
  \<open>round(x, 3)\<close>, \<open>fl_zero\<close> for the literal \<open>0.0\<close> and \<open>fl_truth x\<close> for the truth
  value of \<open>x\<close> (false exactly for zero).
\<close>

record 'f float_ops =
  fl_round3 :: "'f \<Rightarrow> 'f"
  fl_zero :: 'f
  fl_truth :: "'f \<Rightarrow> bool"

text \<open>\<open>x or 0.0\<close> for a score \<open>x\<close> that is \<open>None\<close> or a float.\<close>

definition score_or_zero :: "'f float_ops \<Rightarrow> 'f option \<Rightarrow> 'f" where
  "score_or_zero fo x =
     (case x of None \<Rightarrow> fl_zero fo | Some v \<Rightarrow> if fl_truth fo v then v else fl_zero fo)"

section \<open>Retrieved nodes and source previews (\<open>utils/rag.py\<close>)\<close>

text \<open>
  What \<open>_extract_sources\<close> reads of the library's objects. A node carries
  \<open>metadata\<close> (a dict, or \<open>None\<close>) and \<open>text\<close> (a string, or \<open>None\<close>); the metadata
  values read are the file references, strings or \<open>None\<close>. An entry of
  \<open>response.source_nodes\<close> is the library's \<open>NodeWithScore\<close>, which always has the
  attributes \<open>node\<close> and \<open>score\<close> (a float, or \<open>None\<close>), so that
  \<open>getattr(sn, "node", sn)\<close> is \<open>sn.node\<close>. On the response, \<open>source_nodes\<close> may be
  missing or \<open>None\<close> (both \<open>None\<close> here), and \<open>str(response)\<close> is the answer.
\<close>

record node =
  metadata :: "(pystr \<rightharpoonup> pystr option) option"
  "text" :: "pystr option"

record 'f node_with_score =
  node :: node
  score :: "'f option"

record 'f response =
  source_nodes :: "'f node_with_score list option"
  response_str :: pystr

record 'f SourcePreview =
  "file" :: pystr
  score :: 'f
  "text" :: pystr

text \<open>\<open>meta.get(k)\<close> on \<open>meta = node.metadata or {}\<close>.\<close>

definition meta_get :: "node \<Rightarrow> pystr \<Rightarrow> pystr option" where
  "meta_get n k =
     (case metadata n of None \<Rightarrow> None
      | Some m \<Rightarrow> (case m k of None \<Rightarrow> None | Some v \<Rightarrow> v))"

text \<open>\<open>meta.get("file_path") or meta.get("file_name") or "Unknown"\<close>.\<close>

definition file_name_of :: "node \<Rightarrow> pystr" where
  "file_name_of n =
     (case str_or (str_or (meta_get n (of_ascii ''file_path''))
                          (meta_get n (of_ascii ''file_name'')))
                  (Some (of_ascii ''Unknown'')) of
        None \<Rightarrow> [] | Some s \<Rightarrow> s)"

text \<open>
  The preview of one node text: \<open>text = (node.text or "")[:200].strip()\<close> and then
  \<open>(text + "...") if text else ""\<close>.
\<close>

definition text_preview :: "pystr option \<Rightarrow> pystr" where
  "text_preview t =
     (let text = strip (take 200 (case t of None \<Rightarrow> [] | Some s \<Rightarrow> s))
      in if text \<noteq> [] then text @ of_ascii ''...'' else [])"

definition source_preview :: "'f float_ops \<Rightarrow> 'f node_with_score \<Rightarrow> 'f SourcePreview" where
  "source_preview fo sn =
     \<lparr>file = basename (file_name_of (node sn)),
      score = fl_round3 fo (score_or_zero fo (node_with_score.score sn)),
      text = text_preview (node.text (node sn))\<rparr>"

text \<open>\<open>_extract_sources\<close>: one preview per entry of \<open>source_nodes or []\<close>, in order.\<close>

definition extract_sources :: "'f float_ops \<Rightarrow> 'f response \<Rightarrow> 'f SourcePreview list" where
  "extract_sources fo response =
     map (source_preview fo) (case source_nodes response of None \<Rightarrow> [] | Some sns \<Rightarrow> sns)"

text \<open>\<open>s.__dict__\<close> of a preview: the three fields, in the order of their declaration.\<close>

datatype 'f field = Str pystr | Float 'f

definition dict_of :: "'f SourcePreview \<Rightarrow> (pystr \<times> 'f field) list" where
  "dict_of s =
     [(of_ascii ''file'', Str (file s)),
      (of_ascii ''score'', Float (SourcePreview.score s)),
      (of_ascii ''text'', Str (SourcePreview.text s))]"

section \<open>The library, the file system and the global settings\<close>

text \<open>
  The exceptions of the model: the \<open>ValueError\<close> the source raises itself, the
  \<open>AttributeError\<close> of an attribute read on \<open>None\<close>, and any exception raised inside
  a library call.
\<close>

datatype error = ValueError pystr | AttributeError pystr | LibraryError pystr

text \<open>
  \<open>llama_index.core.Settings\<close>, the process-global configuration object: the LLM and
  the embedding model (each by its model name) and the sentence splitter (by its
  \<open>chunk_size\<close> and \<open>chunk_overlap\<close>).
\<close>

record settings =
  llm :: "pystr option"
  embed_model :: "pystr option"
  node_parser :: "(int \<times> int) option"

text \<open>
  A query engine as \<open>index.as_query_engine\<close> builds it: the index it reads and the
  keyword arguments it was given (\<open>None\<close> for an argument left to the library's
  default). The index type \<open>'i\<close> and the document type \<open>'d\<close> are the library's.
\<close>

record 'i engine =
  engine_index :: 'i
  text_qa_template :: "pystr option"
  similarity_top_k :: int
  response_mode :: "pystr option"

definition as_query_engine :: "'i \<Rightarrow> pystr option \<Rightarrow> int \<Rightarrow> pystr option \<Rightarrow> 'i engine" where
  "as_query_engine ix tmpl k mode =
     \<lparr>engine_index = ix, text_qa_template = tmpl, similarity_top_k = k, response_mode = mode\<rparr>"

text \<open>
  The calls that leave the program: \<open>os.path.exists\<close>, loading the persisted index
  (\<open>StorageContext.from_defaults\<close> and \<open>load_index_from_storage\<close>), reading the PDFs
  (\<open>SimpleDirectoryReader(dir, required_exts).load_data()\<close>), building the index
  (\<open>VectorStoreIndex.from_documents\<close>, which chunks and embeds), persisting it, and
  running a query on an engine (which embeds the question, searches and synthesises).
\<close>

datatype ('i, 'd) call =
    PathExists pystr
  | LoadIndexFromStorage pystr
  | LoadData pystr "pystr list"
  | FromDocuments "'d list"
  | Persist 'i pystr
  | EngineQuery "'i engine" pystr

text \<open>
  The world outside an instance: the calls made so far, in order, and the global
  \<open>Settings\<close>.
\<close>

record ('i, 'd) world =
  calls :: "('i, 'd) call list"
  Settings :: settings

definition record_call :: "('i, 'd) call \<Rightarrow> ('i, 'd) world \<Rightarrow> ('i, 'd) world" where
  "record_call c w = w\<lparr>calls := calls w @ [c]\<rparr>"

text \<open>
  What the outside answers. Each answer may depend on the whole world before the call
  (the history of calls and the settings) and on the arguments; a call that raises
  answers \<open>Inl\<close>. The first three fields are the constructors of the settings objects,
  \<open>LlamaOpenAI(model=...)\<close>, \<open>OpenAIEmbedding(model=...)\<close> and
  \<open>SentenceSplitter.from_defaults(chunk_size=..., chunk_overlap=...)\<close>: each validates
  its arguments and either raises or returns the object, which the model identifies
  with the arguments it was built from. They touch neither the file system nor the
  network and are not recorded among the calls.
\<close>

record ('i, 'd, 'f) library =
  LlamaOpenAI :: "('i, 'd) world \<Rightarrow> pystr \<Rightarrow> error + unit"
  OpenAIEmbedding :: "('i, 'd) world \<Rightarrow> pystr \<Rightarrow> error + unit"
  SentenceSplitter :: "('i, 'd) world \<Rightarrow> int \<Rightarrow> int \<Rightarrow> error + unit"
  path_exists :: "('i, 'd) world \<Rightarrow> pystr \<Rightarrow> bool"
  load_index_from_storage :: "('i, 'd) world \<Rightarrow> pystr \<Rightarrow> error + 'i"
  load_data :: "('i, 'd) world \<Rightarrow> pystr \<Rightarrow> pystr list \<Rightarrow> error + 'd list"
  from_documents :: "('i, 'd) world \<Rightarrow> 'd list \<Rightarrow> error + 'i"
  persist :: "('i, 'd) world \<Rightarrow> 'i \<Rightarrow> pystr \<Rightarrow> error + unit"
  engine_query :: "('i, 'd) world \<Rightarrow> 'i engine \<Rightarrow> pystr \<Rightarrow> error + 'f response"

section \<open>\<open>CVScreenerRAG\<close>\<close>

record 'i CVScreenerRAG =
  cvs_dir :: pystr
  persist_dir :: pystr
  top_k :: int
  index :: "'i option"
  query_engine :: "'i engine option"

text \<open>
  The module constants read from the environment:
  \<open>os.getenv("OPENAI_LLM_MODEL", "gpt-4o")\<close> and
  \<open>os.getenv("OPENAI_EMBED_MODEL", "text-embedding-3-small")\<close>.
\<close>

definition DEFAULT_LLM_MODEL :: "(pystr \<rightharpoonup> pystr) \<Rightarrow> pystr" where
  "DEFAULT_LLM_MODEL environ =
     (case environ (of_ascii ''OPENAI_LLM_MODEL'') of
        None \<Rightarrow> of_ascii ''gpt-4o'' | Some v \<Rightarrow> v)"

definition DEFAULT_EMBED_MODEL :: "(pystr \<rightharpoonup> pystr) \<Rightarrow> pystr" where
  "DEFAULT_EMBED_MODEL environ =
     (case environ (of_ascii ''OPENAI_EMBED_MODEL'') of
        None \<Rightarrow> of_ascii ''text-embedding-3-small'' | Some v \<Rightarrow> v)"

text \<open>
  The arguments of \<open>__init__\<close>, all optional: \<open>None\<close> is an argument not given, which
  takes the default of the signature.
\<close>

record init_args =
  arg_cvs_dir :: "pystr option"
  arg_persist_dir :: "pystr option"
  arg_llm_model :: "pystr option"
  arg_embed_model :: "pystr option"
  arg_chunk_size :: "int option"
  arg_chunk_overlap :: "int option"
  arg_top_k :: "int option"

definition no_args :: init_args where
  "no_args =
     \<lparr>arg_cvs_dir = None, arg_persist_dir = None, arg_llm_model = None,
      arg_embed_model = None, arg_chunk_size = None, arg_chunk_overlap = None,
      arg_top_k = None\<rparr>"

definition or_default :: "'a option \<Rightarrow> 'a \<Rightarrow> 'a" where
  "or_default a d = (case a of None \<Rightarrow> d | Some v \<Rightarrow> v)"

text \<open>
  \<open>CVScreenerRAG.__init__\<close>. The two directories and \<open>top_k\<close> are stored on the instance.
  Then the LLM, the embedding model and the node parser are built and assigned to the
  global \<open>Settings\<close>, one after the other: a constructor that raises ends \<open>__init__\<close>
  with no instance, and the settings assigned before it stay assigned. Last, \<open>index\<close>
  and \<open>query_engine\<close> are set to \<open>None\<close>.
\<close>

definition new_CVScreenerRAG ::
  "('i, 'd, 'f) library \<Rightarrow> (pystr \<rightharpoonup> pystr) \<Rightarrow> init_args \<Rightarrow> ('i, 'd) world \<Rightarrow>
     (error + 'i CVScreenerRAG) \<times> ('i, 'd) world" where
  "new_CVScreenerRAG lib environ a w =
     (let llm_model = or_default (arg_llm_model a) (DEFAULT_LLM_MODEL environ);
          embed = or_default (arg_embed_model a) (DEFAULT_EMBED_MODEL environ);
          chunk_size = or_default (arg_chunk_size a) 512;
          chunk_overlap = or_default (arg_chunk_overlap a) 50
      in case LlamaOpenAI lib w llm_model of
           Inl e \<Rightarrow> (Inl e, w)
         | Inr u1 \<Rightarrow>
             (let w1 = w\<lparr>Settings := (Settings w)\<lparr>llm := Some llm_model\<rparr>\<rparr> in
              case OpenAIEmbedding lib w1 embed of
                Inl e \<Rightarrow> (Inl e, w1)
              | Inr u2 \<Rightarrow>
                  (let w2 = w1\<lparr>Settings := (Settings w1)\<lparr>embed_model := Some embed\<rparr>\<rparr> in
                   case SentenceSplitter lib w2 chunk_size chunk_overlap of
                     Inl e \<Rightarrow> (Inl e, w2)
                   | Inr u3 \<Rightarrow>
                       (Inr \<lparr>cvs_dir = or_default (arg_cvs_dir a) (of_ascii ''cvs''),
                             persist_dir =
                               or_default (arg_persist_dir a) (of_ascii ''data/vector_store''),
                             top_k = or_default (arg_top_k a) 5,
                             index = None,
                             query_engine = None\<rparr>,
                        w2\<lparr>Settings :=
                             (Settings w2)\<lparr>node_parser := Some (chunk_size, chunk_overlap)\<rparr>\<rparr>))))"

text \<open>
  The end of \<open>load_or_create_index\<close>: the default engine, built from \<open>self.index\<close> with
  \<open>similarity_top_k=self.top_k\<close> and \<open>response_mode="compact"\<close>.
\<close>

definition init_query_engine :: "'i \<Rightarrow> 'i CVScreenerRAG \<Rightarrow> 'i CVScreenerRAG" where
  "init_query_engine ix self =
     self\<lparr>query_engine :=
            Some (as_query_engine ix None (top_k self) (Some (of_ascii ''compact'')))\<rparr>"

text \<open>
  \<open>load_or_create_index\<close>. An exception of a library call leaves the method at once,
  with the assignments made so far kept on the instance. The result is the outcome,
  the world and the instance. The progress messages printed on the way are not part
  of the model.
\<close>

definition load_or_create_index ::
  "('i, 'd, 'f) library \<Rightarrow> ('i, 'd) world \<Rightarrow> 'i CVScreenerRAG \<Rightarrow>
     (error + unit) \<times> ('i, 'd) world \<times> 'i CVScreenerRAG" where
  "load_or_create_index lib w self =
     (let w1 = record_call (PathExists (persist_dir self)) w in
      if path_exists lib w (persist_dir self) then
        (let w2 = record_call (LoadIndexFromStorage (persist_dir self)) w1 in
         case load_index_from_storage lib w1 (persist_dir self) of
           Inl e \<Rightarrow> (Inl e, w2, self)
         | Inr ix \<Rightarrow> (Inr (), w2, init_query_engine ix (self\<lparr>index := Some ix\<rparr>)))
      else
        (let exts = [of_ascii ''.pdf''];
             w2 = record_call (LoadData (cvs_dir self) exts) w1 in
         case load_data lib w1 (cvs_dir self) exts of
           Inl e \<Rightarrow> (Inl e, w2, self)
         | Inr documents \<Rightarrow>
             (let w3 = record_call (FromDocuments documents) w2 in
              case from_documents lib w2 documents of
                Inl e \<Rightarrow> (Inl e, w3, self)
              | Inr ix \<Rightarrow>
                  (let self1 = self\<lparr>index := Some ix\<rparr>;
                       w4 = record_call (Persist ix (persist_dir self)) w3 in
                   case persist lib w3 ix (persist_dir self) of
                     Inl e \<Rightarrow> (Inl e, w4, self1)
                   | Inr u \<Rightarrow> (Inr (), w4, init_query_engine ix self1)))))"

text \<open>The message of reading \<open>as_query_engine\<close> on \<open>None\<close> (39 is the apostrophe).\<close>

definition no_attribute :: pystr where
  "no_attribute =
     [39] @ of_ascii ''NoneType'' @ [39] @ of_ascii '' object has no attribute '' @
     [39] @ of_ascii ''as_query_engine'' @ [39]"

definition not_loaded :: error where
  "not_loaded = ValueError (of_ascii ''Index not loaded! Call load_or_create_index() first'')"

text \<open>
  Running one question on an engine and projecting the response:
  \<open>response = qe.query(question)\<close>, \<open>sources = self._extract_sources(response)\<close>,
  \<open>return str(response), [s.__dict__ for s in sources]\<close>.
\<close>

type_synonym 'f answer = "pystr \<times> (pystr \<times> 'f field) list list"

definition run_engine ::
  "('i, 'd, 'f) library \<Rightarrow> 'f float_ops \<Rightarrow> ('i, 'd) world \<Rightarrow> 'i CVScreenerRAG \<Rightarrow>
     'i engine \<Rightarrow> pystr \<Rightarrow> (error + 'f answer) \<times> ('i, 'd) world \<times> 'i CVScreenerRAG" where
  "run_engine lib fo w self qe question =
     (let w1 = record_call (EngineQuery qe question) w in
      case engine_query lib w qe question of
        Inl e \<Rightarrow> (Inl e, w1, self)
      | Inr response \<Rightarrow>
          (Inr (response_str response, map dict_of (extract_sources fo response)), w1, self))"

text \<open>\<open>query\<close>.\<close>

definition query ::
  "('i, 'd, 'f) library \<Rightarrow> 'f float_ops \<Rightarrow> ('i, 'd) world \<Rightarrow> 'i CVScreenerRAG \<Rightarrow>
     pystr \<Rightarrow> (error + 'f answer) \<times> ('i, 'd) world \<times> 'i CVScreenerRAG" where
  "query lib fo w self question =
     (case query_engine self of
        None \<Rightarrow> (Inl not_loaded, w, self)
      | Some qe \<Rightarrow> run_engine lib fo w self qe question)"

text \<open>
  The template of \<open>custom_query\<close>: the system prompt (an f-string field) followed by
  the fixed text, whose braces are literal.
\<close>

definition qa_prompt :: "pystr \<Rightarrow> pystr" where
  "qa_prompt system_prompt =
     system_prompt @ [10, 10] @
     of_ascii ''Context information is below:'' @ [10] @
     of_ascii ''---------------------'' @ [10] @
     of_ascii ''{context_str}'' @ [10] @
     of_ascii ''---------------------'' @ [10] @
     of_ascii ''Given the context information and not prior knowledge,'' @ [10] @
     of_ascii ''answer the query.'' @ [10] @
     of_ascii ''Query: {query_str}'' @ [10] @
     of_ascii ''Answer:''"

text \<open>
  \<open>custom_query\<close>. \<open>if system_prompt:\<close> is false for \<open>None\<close> and for the empty string.
  With a prompt the engine is a local built from \<open>self.index\<close>, whose attribute read
  raises when the index is \<open>None\<close>.
\<close>

definition custom_query ::
  "('i, 'd, 'f) library \<Rightarrow> 'f float_ops \<Rightarrow> ('i, 'd) world \<Rightarrow> 'i CVScreenerRAG \<Rightarrow>
     pystr \<Rightarrow> pystr option \<Rightarrow> (error + 'f answer) \<times> ('i, 'd) world \<times> 'i CVScreenerRAG" where
  "custom_query lib fo w self question system_prompt =
     (case query_engine self of
        None \<Rightarrow> (Inl not_loaded, w, self)
      | Some default_qe \<Rightarrow>
          (case system_prompt of
             None \<Rightarrow> run_engine lib fo w self default_qe question
           | Some sp \<Rightarrow>
               if sp \<noteq> [] then
                 (case index self of
                    None \<Rightarrow>
                      (Inl (AttributeError no_attribute), w, self)
                  | Some ix \<Rightarrow>
                      run_engine lib fo w self
                        (as_query_engine ix (Some (qa_prompt sp)) (top_k self) None) question)
               else run_engine lib fo w self default_qe question))"

section \<open>The chat input handler (\<open>app.py\<close>)\<close>


text \<open>
  The chat input handler. \<open>st.chat_input\<close> gives \<open>None\<close> or the text typed, and the
  handler runs under \<open>if user_input:\<close>, so for \<open>None\<close> and for the empty string it calls
  nothing and shows nothing (the result \<open>None\<close> here). Otherwise it shows the answer,
  the sources, and the error passed to \<open>st.error\<close> when the query raised: the \<open>try\<close>
  around \<open>st.session_state.rag.query(user_input)\<close> catches every exception and replaces
  the result by the fixed message and an empty list.
\<close>

record 'f shown =
  answer :: pystr
  sources :: "(pystr \<times> 'f field) list list"
  st_error :: "error option"

definition failure_message :: pystr where
  "failure_message = of_ascii ''I couldn't complete that query due to an internal error.''"

definition chat_input ::
  "('i, 'd, 'f) library \<Rightarrow> 'f float_ops \<Rightarrow> ('i, 'd) world \<Rightarrow> 'i CVScreenerRAG \<Rightarrow>
     pystr option \<Rightarrow> 'f shown option \<times> ('i, 'd) world \<times> 'i CVScreenerRAG" where
  "chat_input lib fo w rag user_input =
     (case user_input of
        None \<Rightarrow> (None, w, rag)
      | Some question \<Rightarrow>
          if question \<noteq> [] then
            (case query lib fo w rag question of
               (Inl e, w1, rag1) \<Rightarrow>
                 (Some \<lparr>answer = failure_message, sources = [], st_error = Some e\<rparr>, w1, rag1)
             | (Inr (a, s), w1, rag1) \<Rightarrow>
                 (Some \<lparr>answer = a, sources = s, st_error = None\<rparr>, w1, rag1))
          else (None, w, rag))"

section \<open>Sequences of queries\<close>

text \<open>
  Any sequence of calls of the two query methods on one instance, as the loop of
  \<open>test_rag\<close> and the successive runs of the chat handler make them. The result of each
  call is dropped here; the world and the instance are passed on.
\<close>

datatype request = Query pystr | CustomQuery pystr "pystr option"


section \<open>A sample environment\<close>

text \<open>
  A concrete library, used to instantiate the theorems below. Documents are numbers
  and an index is the list of its documents. Scores are integers counting
  ten-thousandths, and rounding to three decimals rounds half to even. An LLM with
  an empty model name is refused, and so are the embedding model \<open>bogus\<close> and a chunk
  overlap larger than the chunk size. Storage exists at the paths \<open>stored\<close>, where an
  index of one document is loaded, and \<open>corrupt\<close>, where loading fails. The directory
  \<open>missing\<close> cannot be read and the directory \<open>empty\<close> has no document; an index
  cannot be built from no document, and it cannot be persisted at the path
  \<open>readonly\<close>. The question \<open>fail\<close> makes the engine fail, any other question gets
  \<open>sample_response\<close>.
\<close>

definition sample_floats :: "int float_ops" where
  "sample_floats =
     \<lparr>fl_round3 = (\<lambda>x. let q = x div 10; r = x mod 10
                       in if r < 5 \<or> (r = 5 \<and> even q) then 10 * q else 10 * (q + 1)),
      fl_zero = 0,
      fl_truth = (\<lambda>x. x \<noteq> 0)\<rparr>"

definition sample_response :: "int response" where
  "sample_response =
     \<lparr>source_nodes = Some
        [\<lparr>node = \<lparr>metadata = Some [of_ascii ''file_path'' \<mapsto> Some (of_ascii ''/cvs/ana.pdf'')],
                  text = Some (of_ascii ''Python developer'')\<rparr>,
          score = Some 8126\<rparr>,
         \<lparr>node = \<lparr>metadata = None, text = None\<rparr>, score = None\<rparr>],
      response_str = of_ascii ''Ana''\<rparr>"

definition sample_library :: "(nat list, nat, int) library" where
  "sample_library =
     \<lparr>LlamaOpenAI = (\<lambda>w m. if m = [] then Inl (LibraryError (of_ascii ''no model''))
                           else Inr ()),
      OpenAIEmbedding = (\<lambda>w m. if m = of_ascii ''bogus''
                               then Inl (LibraryError (of_ascii ''not a valid model''))
                               else Inr ()),
      SentenceSplitter = (\<lambda>w cs co. if cs < co
                                 then Inl (LibraryError (of_ascii ''overlap larger than size''))
                                 else Inr ()),
      path_exists = (\<lambda>w p. p = of_ascii ''corrupt'' \<or> p = of_ascii ''stored''),
      load_index_from_storage = (\<lambda>w p. if p = of_ascii ''stored'' then Inr [7]
                                       else Inl (LibraryError (of_ascii ''corrupt index''))),
      load_data = (\<lambda>w d exts. if d = of_ascii ''missing''
                              then Inl (LibraryError (of_ascii ''no such directory''))
                              else if d = of_ascii ''empty'' then Inr [] else Inr [1, 2]),
      from_documents = (\<lambda>w ds. if ds = [] then Inl (LibraryError (of_ascii ''no documents''))
                              else Inr ds),
      persist = (\<lambda>w ix p. if p = of_ascii ''readonly''
                           then Inl (LibraryError (of_ascii ''cannot write''))
                           else Inr ()),
      engine_query = (\<lambda>w qe q. if q = of_ascii ''fail''
                                 then Inl (LibraryError (of_ascii ''synthesis failed''))
                                 else Inr sample_response)\<rparr>"

definition empty_world :: "(nat list, nat) world" where
  "empty_world = \<lparr>calls = [], Settings = \<lparr>llm = None, embed_model = None, node_parser = None\<rparr>\<rparr>"

text \<open>
  The instance and the world that a construction with the default arguments gives in
  this environment, the same instance with other directories, the instance that
  \<open>load_or_create_index\<close> then makes ready, two questions and a sequence of two
  requests.
\<close>

definition fresh_rag :: "nat list CVScreenerRAG" where
  "fresh_rag =
     \<lparr>cvs_dir = of_ascii ''cvs'', persist_dir = of_ascii ''data/vector_store'', top_k = 5,
      index = None, query_engine = None\<rparr>"

definition rag_at :: "pystr \<Rightarrow> pystr \<Rightarrow> nat list CVScreenerRAG" where
  "rag_at c p = fresh_rag\<lparr>cvs_dir := c, persist_dir := p\<rparr>"

definition default_world :: "(nat list, nat) world" where
  "default_world =
     \<lparr>calls = [],
      Settings = \<lparr>llm = Some (of_ascii ''gpt-4o''),
                  embed_model = Some (of_ascii ''text-embedding-3-small''),
                  node_parser = Some (512, 50)\<rparr>\<rparr>"

definition sample_rag :: "nat list CVScreenerRAG" where
  "sample_rag = snd (snd (load_or_create_index sample_library empty_world fresh_rag))"

text \<open>
  Arguments of a construction that fails in this environment, after the LLM and the
  embedding model were assigned: the chunk size 10 is below the default overlap 50.
\<close>

definition bad_args :: init_args where
  "bad_args =
     no_args\<lparr>arg_llm_model := Some (of_ascii ''gpt-4o-mini''), arg_chunk_size := Some 10\<rparr>"

definition sample_question :: pystr where
  "sample_question = of_ascii ''Who has Python experience?''"

definition failing_question :: pystr where
  "failing_question = of_ascii ''fail''"


lemmas sample_defs = sample_library_def sample_floats_def sample_response_def empty_world_def
  fresh_rag_def rag_at_def default_world_def no_args_def or_default_def

section \<open>Strings: stripping and base names\<close>

lemma strip_split:
  "dropWhile isspace s = strip s @ rev (takeWhile isspace (rev (dropWhile isspace s)))"
proof -
  let ?x = "rev (dropWhile isspace s)"
  have "rev (dropWhile isspace ?x) @ rev (takeWhile isspace ?x) =
      rev (takeWhile isspace ?x @ dropWhile isspace ?x)"
    by (simp only: rev_append)
  also have "\<dots> = dropWhile isspace s"
    by (simp only: takeWhile_dropWhile_id rev_rev_ident)
  finally show ?thesis by (simp only: strip_def)
qed

lemma strip_decomp:
  "\<exists>pre suf. s = pre @ strip s @ suf \<and> (\<forall>c\<in>set pre. isspace c) \<and> (\<forall>c\<in>set suf. isspace c)"
proof -
  let ?a = "takeWhile isspace s" and ?r = "dropWhile isspace s"
  let ?b = "rev (takeWhile isspace (rev ?r))"
  have 1: "s = ?a @ ?r" by simp
  have 3: "\<forall>c\<in>set ?a. isspace c" by (meson set_takeWhileD)
  have 4: "\<forall>c\<in>set ?b. isspace c" by (metis set_rev set_takeWhileD)
  from 1 strip_split [of s] have "s = ?a @ strip s @ ?b" by simp
  with 3 4 show ?thesis by blast
qed

lemma strip_empty_iff: "strip s = [] \<longleftrightarrow> (\<forall>c\<in>set s. isspace c)"
proof
  assume "strip s = []"
  with strip_decomp [of s] show "\<forall>c\<in>set s. isspace c" by (metis append_Nil2 set_append Un_iff)
next
  assume "\<forall>c\<in>set s. isspace c"
  then have "dropWhile isspace s = []" by (induction s) simp_all
  then show "strip s = []" by (simp only: strip_def dropWhile.simps rev.simps)
qed

lemma strip_hd: "strip s \<noteq> [] \<Longrightarrow> \<not> isspace (hd (strip s))"
proof -
  assume ne: "strip s \<noteq> []"
  then have r: "dropWhile isspace s \<noteq> []" by (cases "dropWhile isspace s") (simp_all add: strip_def)
  have "hd (dropWhile isspace s) = hd (strip s)"
    using strip_split [of s] ne by (metis hd_append2)
  with r show ?thesis by (metis hd_dropWhile)
qed

lemma strip_last: "strip s \<noteq> [] \<Longrightarrow> \<not> isspace (last (strip s))"
proof -
  assume ne: "strip s \<noteq> []"
  then have r: "dropWhile isspace (rev (dropWhile isspace s)) \<noteq> []" by (simp add: strip_def)
  then have "\<not> isspace (hd (dropWhile isspace (rev (dropWhile isspace s))))" by (rule hd_dropWhile)
  with r show ?thesis by (simp add: strip_def last_rev)
qed

lemma strip_unique:
  assumes "s = pre @ body @ suf" "\<forall>c\<in>set pre. isspace c" "\<forall>c\<in>set suf. isspace c"
    "body \<noteq> []" "\<not> isspace (hd body)" "\<not> isspace (last body)"
  shows "strip s = body"
proof -
  from assms have 1: "dropWhile isspace s = body @ suf"
    by (cases body) (auto simp: dropWhile_append)
  from assms have 2: "dropWhile isspace (rev suf @ rev body) = rev body"
    by (cases "rev body") (auto simp: dropWhile_append hd_rev)
  from 1 2 show ?thesis by (simp add: strip_def)
qed

lemma basename_no_slash: "47 \<notin> set (basename p)"
proof -
  have "\<And>c. c \<in> set (takeWhile (\<lambda>c. c \<noteq> 47) (rev p)) \<Longrightarrow> c \<noteq> 47"
    by (rule set_takeWhileD [THEN conjunct2])
  then show ?thesis by (auto simp: basename_def)
qed

lemma basename_suffix: "\<exists>d. p = d @ basename p \<and> (d = [] \<or> last d = 47)"
proof -
  let ?t = "takeWhile (\<lambda>c. c \<noteq> 47) (rev p)" and ?d = "dropWhile (\<lambda>c. c \<noteq> 47) (rev p)"
  have "rev ?d @ rev ?t = rev (?t @ ?d)" by (simp only: rev_append)
  also have "\<dots> = p" by (simp only: takeWhile_dropWhile_id rev_rev_ident)
  finally have 1: "p = rev ?d @ basename p" by (simp only: basename_def)
  have "?d \<noteq> [] \<Longrightarrow> hd ?d = 47" using hd_dropWhile [of "\<lambda>c. c \<noteq> 47" "rev p"] by simp
  then have "rev ?d = [] \<or> last (rev ?d) = 47" by (cases "?d = []") (simp_all add: last_rev)
  with 1 show ?thesis by blast
qed

lemma text_preview_decomp:
  assumes "take 200 t = pre @ body @ suf" "\<forall>c\<in>set pre. isspace c" "\<forall>c\<in>set suf. isspace c"
    "body \<noteq> []" "\<not> isspace (hd body)" "\<not> isspace (last body)"
  shows "text_preview (Some t) = body @ of_ascii ''...''"
  using strip_unique [OF assms] assms(4) by (simp add: text_preview_def)

lemma length_strip: "length (strip s) \<le> length s"
proof -
  have "length (strip s) \<le> length (dropWhile isspace s)"
    using length_dropWhile_le [of isspace "rev (dropWhile isspace s)"]
    by (simp only: strip_def length_rev)
  also have "\<dots> \<le> length s" by (rule length_dropWhile_le)
  finally show ?thesis .
qed

lemma basename_unique:
  assumes "p = dir @ f" "dir = [] \<or> last dir = 47" "47 \<notin> set f"
  shows "basename p = f"
proof -
  let ?P = "\<lambda>c::nat. c \<noteq> 47"
  have a: "takeWhile ?P (rev f @ rev dir) = rev f @ takeWhile ?P (rev dir)"
    using assms(3) by (intro takeWhile_append2) auto
  have b: "takeWhile ?P (rev dir) = []"
  proof (cases "dir = []")
    case True
    then show ?thesis by simp
  next
    case False
    with assms(2) have "hd (rev dir) = 47" by (simp add: hd_rev)
    with False show ?thesis by (cases "rev dir") auto
  qed
  show ?thesis
    by (simp only: basename_def assms(1) rev_append a b append_Nil2 rev_rev_ident)
qed

lemma file_name_of_path:
  "metadata n = Some m \<Longrightarrow> m (of_ascii ''file_path'') = Some (Some p) \<Longrightarrow> p \<noteq> [] \<Longrightarrow>
     file_name_of n = p"
  by (simp add: file_name_of_def meta_get_def str_or_def)

lemma file_name_of_name:
  "metadata n = Some m \<Longrightarrow>
     m (of_ascii ''file_path'') \<in> {None, Some None, Some (Some [])} \<Longrightarrow>
     m (of_ascii ''file_name'') = Some (Some p) \<Longrightarrow> p \<noteq> [] \<Longrightarrow> file_name_of n = p"
  by (auto simp: file_name_of_def meta_get_def str_or_def)

lemma file_name_of_missing:
  assumes "metadata n = None \<or>
      (\<exists>m. metadata n = Some m \<and> m (of_ascii ''file_path'') \<in> {None, Some None, Some (Some [])} \<and>
         m (of_ascii ''file_name'') \<in> {None, Some None, Some (Some [])})"
  shows "file_name_of n = of_ascii ''Unknown''"
  using assms by (auto simp: file_name_of_def meta_get_def str_or_def)

lemma score_or_zero_cases:
  "(\<forall>v. x = Some v \<and> fl_truth fo v \<longrightarrow> score_or_zero fo x = v) \<and>
   (x = None \<or> (\<exists>v. x = Some v \<and> \<not> fl_truth fo v) \<longrightarrow> score_or_zero fo x = fl_zero fo)"
  by (auto simp: score_or_zero_def)

lemma dict_of_source_preview:
  "\<exists>f s t ref dir.
     dict_of (source_preview fo sn) =
       [(of_ascii ''file'', Str f), (of_ascii ''score'', Float s), (of_ascii ''text'', Str t)] \<and>
     ref = dir @ f \<and> (dir = [] \<or> last dir = 47) \<and> 47 \<notin> set f \<and>
     (\<forall>m p. metadata (node sn) = Some m \<and> m (of_ascii ''file_path'') = Some (Some p) \<and> p \<noteq> [] \<longrightarrow>
        ref = p) \<and>
     (\<forall>m p. metadata (node sn) = Some m \<and>
        m (of_ascii ''file_path'') \<in> {None, Some None, Some (Some [])} \<and>
        m (of_ascii ''file_name'') = Some (Some p) \<and> p \<noteq> [] \<longrightarrow> ref = p) \<and>
     (metadata (node sn) = None \<or>
      (\<exists>m. metadata (node sn) = Some m \<and>
         m (of_ascii ''file_path'') \<in> {None, Some None, Some (Some [])} \<and>
         m (of_ascii ''file_name'') \<in> {None, Some None, Some (Some [])}) \<longrightarrow>
        ref = of_ascii ''Unknown'') \<and>
     (\<forall>v. node_with_score.score sn = Some v \<and> fl_truth fo v \<longrightarrow> s = fl_round3 fo v) \<and>
     (node_with_score.score sn = None \<or>
      (\<exists>v. node_with_score.score sn = Some v \<and> \<not> fl_truth fo v) \<longrightarrow>
        s = fl_round3 fo (fl_zero fo)) \<and>
     t = text_preview (node.text (node sn))"
proof -
  let ?ref = "file_name_of (node sn)"
  let ?s = "fl_round3 fo (score_or_zero fo (node_with_score.score sn))"
  obtain dir where d: "?ref = dir @ basename ?ref" "dir = [] \<or> last dir = 47"
    using basename_suffix [of ?ref] by blast
  have 1: "dict_of (source_preview fo sn) =
       [(of_ascii ''file'', Str (basename ?ref)), (of_ascii ''score'', Float ?s),
        (of_ascii ''text'', Str (text_preview (node.text (node sn))))]"
    by (simp add: dict_of_def source_preview_def)
  have 2: "\<forall>m p. metadata (node sn) = Some m \<and> m (of_ascii ''file_path'') = Some (Some p) \<and> p \<noteq> [] \<longrightarrow>
        ?ref = p"
    using file_name_of_path by blast
  have 3: "\<forall>m p. metadata (node sn) = Some m \<and>
        m (of_ascii ''file_path'') \<in> {None, Some None, Some (Some [])} \<and>
        m (of_ascii ''file_name'') = Some (Some p) \<and> p \<noteq> [] \<longrightarrow> ?ref = p"
    using file_name_of_name by blast
  have 4: "metadata (node sn) = None \<or>
      (\<exists>m. metadata (node sn) = Some m \<and>
         m (of_ascii ''file_path'') \<in> {None, Some None, Some (Some [])} \<and>
         m (of_ascii ''file_name'') \<in> {None, Some None, Some (Some [])}) \<longrightarrow>
        ?ref = of_ascii ''Unknown''"
    using file_name_of_missing by blast
  have 5: "\<forall>v. node_with_score.score sn = Some v \<and> fl_truth fo v \<longrightarrow> ?s = fl_round3 fo v"
    using score_or_zero_cases [of "node_with_score.score sn" fo] by auto
  have 6: "node_with_score.score sn = None \<or>
      (\<exists>v. node_with_score.score sn = Some v \<and> \<not> fl_truth fo v) \<longrightarrow>
        ?s = fl_round3 fo (fl_zero fo)"
    using score_or_zero_cases [of "node_with_score.score sn" fo] by auto
  from 1 d basename_no_slash [of ?ref] 2 3 4 5 6 show ?thesis by blast
qed

section \<open>Frames and shapes of the query methods\<close>

lemma run_engine_frame:
  "run_engine lib fo w self qe q = (r, w', self') \<Longrightarrow>
     self' = self \<and> Settings w' = Settings w \<and> calls w' = calls w @ [EngineQuery qe q]"
  by (auto simp: run_engine_def Let_def record_call_def split: sum.splits)

lemma query_frame:
  "query lib fo w self q = (r, w', self') \<Longrightarrow> self' = self \<and> Settings w' = Settings w"
  by (auto simp: query_def split: option.splits dest: run_engine_frame)

lemma custom_query_frame:
  "custom_query lib fo w self q sp = (r, w', self') \<Longrightarrow> self' = self \<and> Settings w' = Settings w"
  by (auto simp: custom_query_def split: option.splits if_splits dest: run_engine_frame)

lemma query_calls:
  "query lib fo w self q = (r, w', self') \<Longrightarrow> query_engine self = Some qe \<Longrightarrow>
     calls w' = calls w @ [EngineQuery qe q]"
  by (auto simp: query_def dest: run_engine_frame)

lemma custom_query_calls:
  "custom_query lib fo w self q sp = (r, w', self') \<Longrightarrow> query_engine self = Some qe \<Longrightarrow>
     index self = Some ix \<Longrightarrow>
     calls w' = calls w @
       [EngineQuery (if sp = None \<or> sp = Some [] then qe
                     else as_query_engine ix (Some (qa_prompt (the sp))) (top_k self) None) q]"
  by (auto simp: custom_query_def split: option.splits if_splits dest: run_engine_frame)

lemma length_extract_sources:
  "length (extract_sources fo r) = length (case source_nodes r of None \<Rightarrow> [] | Some sns \<Rightarrow> sns)"
  by (simp add: extract_sources_def)



lemma sample_new:
  "new_CVScreenerRAG sample_library Map.empty no_args empty_world = (Inr fresh_rag, default_world)"
  by (simp add: new_CVScreenerRAG_def Let_def sample_defs DEFAULT_LLM_MODEL_def
      DEFAULT_EMBED_MODEL_def of_ascii_def)


lemma sample_rag_fields:
  "query_engine sample_rag = Some (as_query_engine [1, 2] None 5 (Some (of_ascii ''compact'')))"
  "index sample_rag = Some [1, 2]"
  "top_k sample_rag = 5"
  by (simp_all add: sample_rag_def load_or_create_index_def Let_def sample_defs
      init_query_engine_def of_ascii_def)

lemma sample_engine_query:
  "engine_query sample_library w qe failing_question =
     Inl (LibraryError (of_ascii ''synthesis failed''))"
  "engine_query sample_library w qe sample_question = Inr sample_response"
  by (simp_all add: sample_library_def sample_question_def failing_question_def of_ascii_def)

lemma sample_query:
  "query sample_library sample_floats empty_world sample_rag sample_question =
     (Inr (of_ascii ''Ana'',
        [[(of_ascii ''file'', Str (of_ascii ''ana.pdf'')), (of_ascii ''score'', Float 8130),
          (of_ascii ''text'', Str (of_ascii ''Python developer...''))],
         [(of_ascii ''file'', Str (of_ascii ''Unknown'')), (of_ascii ''score'', Float 0),
          (of_ascii ''text'', Str [])]]),
      record_call (EngineQuery (as_query_engine [1, 2] None 5 (Some (of_ascii ''compact'')))
        sample_question) empty_world,
      sample_rag)"
  by (simp add: query_def sample_rag_fields run_engine_def Let_def sample_engine_query
      extract_sources_def source_preview_def dict_of_def sample_response_def sample_floats_def
      file_name_of_def meta_get_def str_or_def basename_def score_or_zero_def text_preview_def
      strip_def isspace_def of_ascii_def)


section \<open>Evidence previews\<close>

text \<open>
  Claim C1, as the source has it. The preview is made from the first 200 characters of
  the chunk text, with leading and trailing whitespace stripped. It is empty when those
  characters are all whitespace (or the text is \<open>None\<close>); otherwise it is the stripped
  body, of at most 200 characters, followed by the marker \<open>...\<close>. The marker follows
  every non-empty body, whether or not the text was longer than 200 characters.
\<close>

theorem text_preview_stripped_then_marked:
  "text_preview None = [] \<and>
   ((\<forall>c\<in>set (take 200 t). isspace c) \<longrightarrow> text_preview (Some t) = []) \<and>
   (take 200 t = pre @ body @ suf \<and> (\<forall>c\<in>set pre. isspace c) \<and> (\<forall>c\<in>set suf. isspace c) \<and>
      body \<noteq> [] \<and> \<not> isspace (hd body) \<and> \<not> isspace (last body) \<longrightarrow>
    text_preview (Some t) = body @ of_ascii ''...'') \<and>
   (\<not> (\<forall>c\<in>set (take 200 t). isspace c) \<longrightarrow>
    (\<exists>p b s. take 200 t = p @ b @ s \<and> (\<forall>c\<in>set p. isspace c) \<and> (\<forall>c\<in>set s. isspace c) \<and>
       b \<noteq> [] \<and> \<not> isspace (hd b) \<and> \<not> isspace (last b) \<and> length b \<le> 200 \<and>
       text_preview (Some t) = b @ of_ascii ''...''))"
proof (intro conjI impI)
  show "text_preview None = []" by (simp add: text_preview_def strip_def)
next
  assume "\<forall>c\<in>set (take 200 t). isspace c"
  then have "strip (take 200 t) = []" by (simp only: strip_empty_iff)
  then show "text_preview (Some t) = []" by (simp add: text_preview_def)
next
  assume "take 200 t = pre @ body @ suf \<and> (\<forall>c\<in>set pre. isspace c) \<and> (\<forall>c\<in>set suf. isspace c) \<and>
      body \<noteq> [] \<and> \<not> isspace (hd body) \<and> \<not> isspace (last body)"
  then show "text_preview (Some t) = body @ of_ascii ''...''"
    using text_preview_decomp by blast
next
  let ?b = "strip (take 200 t)"
  assume "\<not> (\<forall>c\<in>set (take 200 t). isspace c)"
  then have ne: "?b \<noteq> []" by (simp only: strip_empty_iff not_False_eq_True)
  obtain p s where d: "take 200 t = p @ ?b @ s" "\<forall>c\<in>set p. isspace c" "\<forall>c\<in>set s. isspace c"
    using strip_decomp [of "take 200 t"] by blast
  have l: "length ?b \<le> 200" using length_strip [of "take 200 t"] by simp
  have e: "text_preview (Some t) = ?b @ of_ascii ''...''" using ne by (simp add: text_preview_def)
  from d ne strip_hd [OF ne] strip_last [OF ne] l e
  show "\<exists>p b s. take 200 t = p @ b @ s \<and> (\<forall>c\<in>set p. isspace c) \<and> (\<forall>c\<in>set s. isspace c) \<and>
       b \<noteq> [] \<and> \<not> isspace (hd b) \<and> \<not> isspace (last b) \<and> length b \<le> 200 \<and>
       text_preview (Some t) = b @ of_ascii ''...''" by blast
qed

text \<open>
  Instances: three blanks give the empty preview; a short text with blanks around it
  gives its body and the marker; 250 letters give the first 200 and the marker.
\<close>

theorem text_preview_stripped_then_marked_witness:
  "text_preview (Some (of_ascii ''   '')) = [] \<and>
   text_preview (Some (of_ascii '' abc  '')) = of_ascii ''abc...'' \<and>
   text_preview (Some (replicate 250 97)) = replicate 200 97 @ of_ascii ''...''"
proof -
  have 1: "text_preview (Some (of_ascii ''   '')) = []"
    using text_preview_stripped_then_marked [of "of_ascii ''   ''"]
    by (simp add: of_ascii_def isspace_def)
  have 2: "text_preview (Some (of_ascii '' abc  '')) = of_ascii ''abc...''"
    using text_preview_stripped_then_marked
      [of "of_ascii '' abc  ''" "of_ascii '' ''" "of_ascii ''abc''" "of_ascii ''  ''"]
    by (simp add: of_ascii_def isspace_def)
  have 3: "text_preview (Some (replicate 250 97)) = replicate 200 97 @ of_ascii ''...''"
    using text_preview_stripped_then_marked [of "replicate 250 97" "[]" "replicate 200 97" "[]"]
    by (simp add: isspace_def)
  from 1 2 3 show ?thesis by blast
qed

text \<open>
  Claim C1 as stated fails on a short text: the three characters \<open>abc\<close> are not
  returned verbatim, the marker is appended.
\<close>

theorem short_text_gets_marker:
  "length (of_ascii ''abc'') \<le> 200 \<and>
   text_preview (Some (of_ascii ''abc'')) = of_ascii ''abc...'' \<and>
   text_preview (Some (of_ascii ''abc'')) \<noteq> of_ascii ''abc''"
  by (simp add: text_preview_def strip_def isspace_def of_ascii_def)

section \<open>Readiness and index start-up\<close>

text \<open>
  Claim C2. While \<open>query_engine\<close> is \<open>None\<close>, \<open>query\<close> and \<open>custom_query\<close> raise the
  "Index not loaded" error and leave the world as it was: no call to the library is
  recorded. An instance that a construction returns is in this state, and a
  \<open>load_or_create_index\<close> that raises leaves an instance in it.
\<close>

theorem not_ready_fails_before_any_call:
  "(query_engine self = None \<longrightarrow>
      query lib fo w self q = (Inl not_loaded, w, self) \<and>
      custom_query lib fo w self q sp = (Inl not_loaded, w, self)) \<and>
   (new_CVScreenerRAG lib environ a w0 = (Inr rag, w1) \<longrightarrow> query_engine rag = None) \<and>
   (query_engine self = None \<and> load_or_create_index lib w self = (Inl e, w', self') \<longrightarrow>
      query_engine self' = None)"
  by (auto simp: query_def custom_query_def new_CVScreenerRAG_def load_or_create_index_def
      Let_def init_query_engine_def split: sum.splits if_splits)

text \<open>
  Instances: the instance of the default construction answers both queries with the
  error in the untouched world, and an instance whose load failed still has no engine.
\<close>

theorem not_ready_fails_before_any_call_witness:
  "query sample_library sample_floats default_world fresh_rag sample_question =
     (Inl not_loaded, default_world, fresh_rag) \<and>
   custom_query sample_library sample_floats default_world fresh_rag sample_question
     (Some (of_ascii ''Answer briefly.'')) = (Inl not_loaded, default_world, fresh_rag) \<and>
   query_engine (snd (snd (load_or_create_index sample_library empty_world
     (rag_at (of_ascii ''cvs'') (of_ascii ''corrupt''))))) = None"
proof -
  let ?c = "rag_at (of_ascii ''cvs'') (of_ascii ''corrupt'')"
  let ?l = "load_or_create_index sample_library empty_world ?c"
  have n: "query_engine fresh_rag = None"
    using not_ready_fails_before_any_call [where lib = sample_library and environ = Map.empty
        and a = no_args and ?w0.0 = empty_world and rag = fresh_rag and ?w1.0 = default_world]
      sample_new by blast
  have c: "query_engine ?c = None" by (simp add: rag_at_def fresh_rag_def)
  have f: "?l = (Inl (LibraryError (of_ascii ''corrupt index'')), fst (snd ?l), snd (snd ?l))"
    by (simp add: load_or_create_index_def Let_def sample_defs of_ascii_def)
  from n c f
    not_ready_fails_before_any_call [where self = fresh_rag and lib = sample_library
      and fo = sample_floats and w = default_world and q = sample_question
      and sp = "Some (of_ascii ''Answer briefly.'')"]
    not_ready_fails_before_any_call [where self = ?c and lib = sample_library and w = empty_world
      and e = "LibraryError (of_ascii ''corrupt index'')" and w' = "fst (snd ?l)"
      and self' = "snd (snd ?l)"]
  show ?thesis by blast
qed

text \<open>
  Claim C3, case by case; \<open>ready ix\<close> is the instance with the index \<open>ix\<close> and the default
  engine on it. When the persisted path exists, \<open>load_or_create_index\<close> makes exactly the
  existence test and the load: a failed load is the outcome of the method and the
  instance is unchanged, a loaded index makes the instance ready; nothing is read,
  built or persisted. When the path does not exist, the documents are read. A failed
  read is the outcome, after two calls. Otherwise the index is built from the documents
  that were read: a failed build is the outcome, after three calls and with no persist.
  Otherwise the index that was built is persisted at the path: a failed persist is the
  outcome, with the index kept on the instance, and a persist that succeeds makes the
  instance ready with that index.
\<close>

theorem load_or_create_index_startup:
  assumes "load_or_create_index lib w self = (r, w', self')"
    and "w1 = record_call (PathExists (persist_dir self)) w"
    and "w2 = record_call (LoadData (cvs_dir self) [of_ascii ''.pdf'']) w1"
    and "ready = (\<lambda>ix. self\<lparr>index := Some ix,
           query_engine := Some (as_query_engine ix None (top_k self) (Some (of_ascii ''compact'')))\<rparr>)"
  shows
   "(path_exists lib w (persist_dir self) \<longrightarrow>
       calls w' = calls w @
         [PathExists (persist_dir self), LoadIndexFromStorage (persist_dir self)] \<and>
       (\<forall>e. load_index_from_storage lib w1 (persist_dir self) = Inl e \<longrightarrow>
          r = Inl e \<and> self' = self) \<and>
       (\<forall>ix. load_index_from_storage lib w1 (persist_dir self) = Inr ix \<longrightarrow>
          r = Inr () \<and> self' = ready ix)) \<and>
    (\<not> path_exists lib w (persist_dir self) \<longrightarrow>
       (\<forall>e. load_data lib w1 (cvs_dir self) [of_ascii ''.pdf''] = Inl e \<longrightarrow>
          r = Inl e \<and> self' = self \<and>
          calls w' = calls w @
            [PathExists (persist_dir self), LoadData (cvs_dir self) [of_ascii ''.pdf'']]) \<and>
       (\<forall>docs. load_data lib w1 (cvs_dir self) [of_ascii ''.pdf''] = Inr docs \<longrightarrow>
          (\<forall>e. from_documents lib w2 docs = Inl e \<longrightarrow>
             r = Inl e \<and> self' = self \<and>
             calls w' = calls w @
               [PathExists (persist_dir self), LoadData (cvs_dir self) [of_ascii ''.pdf''],
                FromDocuments docs]) \<and>
          (\<forall>ix. from_documents lib w2 docs = Inr ix \<longrightarrow>
             calls w' = calls w @
               [PathExists (persist_dir self), LoadData (cvs_dir self) [of_ascii ''.pdf''],
                FromDocuments docs, Persist ix (persist_dir self)] \<and>
             (\<forall>e. persist lib (record_call (FromDocuments docs) w2) ix (persist_dir self) = Inl e \<longrightarrow>
                r = Inl e \<and> self' = self\<lparr>index := Some ix\<rparr>) \<and>
             (persist lib (record_call (FromDocuments docs) w2) ix (persist_dir self) = Inr () \<longrightarrow>
                r = Inr () \<and> self' = ready ix))))"
  using assms
  by (auto simp: load_or_create_index_def Let_def record_call_def init_query_engine_def
      split: sum.splits if_splits)

text \<open>
  Instances, one for each case: a failed load at \<open>corrupt\<close>, a load at \<open>stored\<close>, a failed
  read of \<open>missing\<close>, a failed build from \<open>empty\<close>, a failed persist at \<open>readonly\<close>, and
  the whole pipeline.
\<close>

theorem load_or_create_index_startup_witness:
  "(fst (load_or_create_index sample_library empty_world (rag_at (of_ascii ''cvs'') (of_ascii ''corrupt''))) =
      Inl (LibraryError (of_ascii ''corrupt index'')) \<and>
    calls (fst (snd (load_or_create_index sample_library empty_world (rag_at (of_ascii ''cvs'') (of_ascii ''corrupt''))))) =
      [PathExists (of_ascii ''corrupt''), LoadIndexFromStorage (of_ascii ''corrupt'')] \<and>
    snd (snd (load_or_create_index sample_library empty_world (rag_at (of_ascii ''cvs'') (of_ascii ''corrupt'')))) =
      rag_at (of_ascii ''cvs'') (of_ascii ''corrupt'')) \<and>
   (fst (load_or_create_index sample_library empty_world (rag_at (of_ascii ''cvs'') (of_ascii ''stored''))) =
      Inr () \<and>
    calls (fst (snd (load_or_create_index sample_library empty_world (rag_at (of_ascii ''cvs'') (of_ascii ''stored''))))) =
      [PathExists (of_ascii ''stored''), LoadIndexFromStorage (of_ascii ''stored'')] \<and>
    snd (snd (load_or_create_index sample_library empty_world (rag_at (of_ascii ''cvs'') (of_ascii ''stored'')))) =
      (rag_at (of_ascii ''cvs'') (of_ascii ''stored''))\<lparr>index := Some [7],
         query_engine := Some (as_query_engine [7] None 5 (Some (of_ascii ''compact'')))\<rparr>) \<and>
   (fst (load_or_create_index sample_library empty_world (rag_at (of_ascii ''missing'') (of_ascii ''data''))) =
      Inl (LibraryError (of_ascii ''no such directory'')) \<and>
    calls (fst (snd (load_or_create_index sample_library empty_world (rag_at (of_ascii ''missing'') (of_ascii ''data''))))) =
      [PathExists (of_ascii ''data''), LoadData (of_ascii ''missing'') [of_ascii ''.pdf'']] \<and>
    snd (snd (load_or_create_index sample_library empty_world (rag_at (of_ascii ''missing'') (of_ascii ''data'')))) =
      rag_at (of_ascii ''missing'') (of_ascii ''data'')) \<and>
   (fst (load_or_create_index sample_library empty_world (rag_at (of_ascii ''empty'') (of_ascii ''data''))) =
      Inl (LibraryError (of_ascii ''no documents'')) \<and>
    calls (fst (snd (load_or_create_index sample_library empty_world (rag_at (of_ascii ''empty'') (of_ascii ''data''))))) =
      [PathExists (of_ascii ''data''), LoadData (of_ascii ''empty'') [of_ascii ''.pdf''],
        FromDocuments []] \<and>
    snd (snd (load_or_create_index sample_library empty_world (rag_at (of_ascii ''empty'') (of_ascii ''data'')))) =
      rag_at (of_ascii ''empty'') (of_ascii ''data'')) \<and>
   (fst (load_or_create_index sample_library empty_world (rag_at (of_ascii ''cvs'') (of_ascii ''readonly''))) =
      Inl (LibraryError (of_ascii ''cannot write'')) \<and>
    calls (fst (snd (load_or_create_index sample_library empty_world (rag_at (of_ascii ''cvs'') (of_ascii ''readonly''))))) =
      [PathExists (of_ascii ''readonly''), LoadData (of_ascii ''cvs'') [of_ascii ''.pdf''],
        FromDocuments [1, 2], Persist [1, 2] (of_ascii ''readonly'')] \<and>
    snd (snd (load_or_create_index sample_library empty_world (rag_at (of_ascii ''cvs'') (of_ascii ''readonly'')))) =
      (rag_at (of_ascii ''cvs'') (of_ascii ''readonly''))\<lparr>index := Some [1, 2]\<rparr>) \<and>
   (fst (load_or_create_index sample_library empty_world (rag_at (of_ascii ''cvs'') (of_ascii ''data''))) =
      Inr () \<and>
    calls (fst (snd (load_or_create_index sample_library empty_world (rag_at (of_ascii ''cvs'') (of_ascii ''data''))))) =
      [PathExists (of_ascii ''data''), LoadData (of_ascii ''cvs'') [of_ascii ''.pdf''],
        FromDocuments [1, 2], Persist [1, 2] (of_ascii ''data'')] \<and>
    snd (snd (load_or_create_index sample_library empty_world (rag_at (of_ascii ''cvs'') (of_ascii ''data'')))) =
      (rag_at (of_ascii ''cvs'') (of_ascii ''data''))\<lparr>index := Some [1, 2],
         query_engine := Some (as_query_engine [1, 2] None 5 (Some (of_ascii ''compact'')))\<rparr>)"
proof -
  have a: "fst (load_or_create_index sample_library empty_world (rag_at (of_ascii ''cvs'') (of_ascii ''corrupt''))) =
      Inl (LibraryError (of_ascii ''corrupt index'')) \<and>
    calls (fst (snd (load_or_create_index sample_library empty_world (rag_at (of_ascii ''cvs'') (of_ascii ''corrupt''))))) =
      [PathExists (of_ascii ''corrupt''), LoadIndexFromStorage (of_ascii ''corrupt'')] \<and>
    snd (snd (load_or_create_index sample_library empty_world (rag_at (of_ascii ''cvs'') (of_ascii ''corrupt'')))) =
      rag_at (of_ascii ''cvs'') (of_ascii ''corrupt'')"
  proof -
    let ?x = "rag_at (of_ascii ''cvs'') (of_ascii ''corrupt'')"
    let ?l = "load_or_create_index sample_library empty_world ?x"
    have e: "?l = (fst ?l, fst (snd ?l), snd (snd ?l))" by simp
    show ?thesis
      using load_or_create_index_startup [OF e refl refl refl]
      by (simp add: sample_library_def rag_at_def fresh_rag_def empty_world_def record_call_def
          of_ascii_def)
  qed
  have b: "fst (load_or_create_index sample_library empty_world (rag_at (of_ascii ''cvs'') (of_ascii ''stored''))) =
      Inr () \<and>
    calls (fst (snd (load_or_create_index sample_library empty_world (rag_at (of_ascii ''cvs'') (of_ascii ''stored''))))) =
      [PathExists (of_ascii ''stored''), LoadIndexFromStorage (of_ascii ''stored'')] \<and>
    snd (snd (load_or_create_index sample_library empty_world (rag_at (of_ascii ''cvs'') (of_ascii ''stored'')))) =
      (rag_at (of_ascii ''cvs'') (of_ascii ''stored''))\<lparr>index := Some [7],
         query_engine := Some (as_query_engine [7] None 5 (Some (of_ascii ''compact'')))\<rparr>"
  proof -
    let ?x = "rag_at (of_ascii ''cvs'') (of_ascii ''stored'')"
    let ?l = "load_or_create_index sample_library empty_world ?x"
    have e: "?l = (fst ?l, fst (snd ?l), snd (snd ?l))" by simp
    show ?thesis
      using load_or_create_index_startup [OF e refl refl refl]
      by (simp add: sample_library_def rag_at_def fresh_rag_def empty_world_def record_call_def
          of_ascii_def)
  qed
  have c: "fst (load_or_create_index sample_library empty_world (rag_at (of_ascii ''missing'') (of_ascii ''data''))) =
      Inl (LibraryError (of_ascii ''no such directory'')) \<and>
    calls (fst (snd (load_or_create_index sample_library empty_world (rag_at (of_ascii ''missing'') (of_ascii ''data''))))) =
      [PathExists (of_ascii ''data''), LoadData (of_ascii ''missing'') [of_ascii ''.pdf'']] \<and>
    snd (snd (load_or_create_index sample_library empty_world (rag_at (of_ascii ''missing'') (of_ascii ''data'')))) =
      rag_at (of_ascii ''missing'') (of_ascii ''data'')"
  proof -
    let ?x = "rag_at (of_ascii ''missing'') (of_ascii ''data'')"
    let ?l = "load_or_create_index sample_library empty_world ?x"
    have e: "?l = (fst ?l, fst (snd ?l), snd (snd ?l))" by simp
    show ?thesis
      using load_or_create_index_startup [OF e refl refl refl]
      by (simp add: sample_library_def rag_at_def fresh_rag_def empty_world_def record_call_def
          of_ascii_def)
  qed
  have d: "fst (load_or_create_index sample_library empty_world (rag_at (of_ascii ''empty'') (of_ascii ''data''))) =
      Inl (LibraryError (of_ascii ''no documents'')) \<and>
    calls (fst (snd (load_or_create_index sample_library empty_world (rag_at (of_ascii ''empty'') (of_ascii ''data''))))) =
      [PathExists (of_ascii ''data''), LoadData (of_ascii ''empty'') [of_ascii ''.pdf''],
        FromDocuments []] \<and>
    snd (snd (load_or_create_index sample_library empty_world (rag_at (of_ascii ''empty'') (of_ascii ''data'')))) =
      rag_at (of_ascii ''empty'') (of_ascii ''data'')"
  proof -
    let ?x = "rag_at (of_ascii ''empty'') (of_ascii ''data'')"
    let ?l = "load_or_create_index sample_library empty_world ?x"
    have e: "?l = (fst ?l, fst (snd ?l), snd (snd ?l))" by simp
    show ?thesis
      using load_or_create_index_startup [OF e refl refl refl]
      by (simp add: sample_library_def rag_at_def fresh_rag_def empty_world_def record_call_def
          of_ascii_def)
  qed
  have e: "fst (load_or_create_index sample_library empty_world (rag_at (of_ascii ''cvs'') (of_ascii ''readonly''))) =
      Inl (LibraryError (of_ascii ''cannot write'')) \<and>
    calls (fst (snd (load_or_create_index sample_library empty_world (rag_at (of_ascii ''cvs'') (of_ascii ''readonly''))))) =
      [PathExists (of_ascii ''readonly''), LoadData (of_ascii ''cvs'') [of_ascii ''.pdf''],
        FromDocuments [1, 2], Persist [1, 2] (of_ascii ''readonly'')] \<and>
    snd (snd (load_or_create_index sample_library empty_world (rag_at (of_ascii ''cvs'') (of_ascii ''readonly'')))) =
      (rag_at (of_ascii ''cvs'') (of_ascii ''readonly''))\<lparr>index := Some [1, 2]\<rparr>"
  proof -
    let ?x = "rag_at (of_ascii ''cvs'') (of_ascii ''readonly'')"
    let ?l = "load_or_create_index sample_library empty_world ?x"
    have e: "?l = (fst ?l, fst (snd ?l), snd (snd ?l))" by simp
    show ?thesis
      using load_or_create_index_startup [OF e refl refl refl]
      by (simp add: sample_library_def rag_at_def fresh_rag_def empty_world_def record_call_def
          of_ascii_def)
  qed
  have f: "fst (load_or_create_index sample_library empty_world (rag_at (of_ascii ''cvs'') (of_ascii ''data''))) =
      Inr () \<and>
    calls (fst (snd (load_or_create_index sample_library empty_world (rag_at (of_ascii ''cvs'') (of_ascii ''data''))))) =
      [PathExists (of_ascii ''data''), LoadData (of_ascii ''cvs'') [of_ascii ''.pdf''],
        FromDocuments [1, 2], Persist [1, 2] (of_ascii ''data'')] \<and>
    snd (snd (load_or_create_index sample_library empty_world (rag_at (of_ascii ''cvs'') (of_ascii ''data'')))) =
      (rag_at (of_ascii ''cvs'') (of_ascii ''data''))\<lparr>index := Some [1, 2],
         query_engine := Some (as_query_engine [1, 2] None 5 (Some (of_ascii ''compact'')))\<rparr>"
  proof -
    let ?x = "rag_at (of_ascii ''cvs'') (of_ascii ''data'')"
    let ?l = "load_or_create_index sample_library empty_world ?x"
    have e: "?l = (fst ?l, fst (snd ?l), snd (snd ?l))" by simp
    show ?thesis
      using load_or_create_index_startup [OF e refl refl refl]
      by (simp add: sample_library_def rag_at_def fresh_rag_def empty_world_def record_call_def
          of_ascii_def)
  qed
  from a b c d e f show ?thesis by blast
qed

section \<open>Queries\<close>

text \<open>
  Claim C4. \<open>custom_query\<close> returns the instance as it was, index and default engine
  included, and leaves the global settings alone. With a non-empty template the one
  library call it makes is on an engine built in that call from the index, the template
  and \<open>top_k\<close>; a \<open>query\<close> that follows runs on the default engine that was there
  before.
\<close>

theorem custom_query_leaves_shared_state:
  assumes "custom_query lib fo w self q sp = (r, w', self')"
  shows "self' = self \<and> Settings w' = Settings w \<and>
     (\<forall>qe ix t. query_engine self = Some qe \<and> index self = Some ix \<and> sp = Some t \<and> t \<noteq> [] \<longrightarrow>
        calls w' = calls w @
          [EngineQuery (as_query_engine ix (Some (qa_prompt t)) (top_k self) None) q]) \<and>
     (\<forall>qe q2. query_engine self = Some qe \<longrightarrow>
        calls (fst (snd (query lib fo w' self' q2))) = calls w' @ [EngineQuery qe q2])"
proof (intro conjI allI impI)
  from custom_query_frame [OF assms] show s: "self' = self" and "Settings w' = Settings w"
    by simp_all
  {
    fix qe ix t
    assume "query_engine self = Some qe \<and> index self = Some ix \<and> sp = Some t \<and> t \<noteq> []"
    with custom_query_calls [OF assms, of qe ix]
    show "calls w' = calls w @
          [EngineQuery (as_query_engine ix (Some (qa_prompt t)) (top_k self) None) q]"
      by simp
  }
  {
    fix qe q2
    assume "query_engine self = Some qe"
    with s have e: "query_engine self' = Some qe" by simp
    have "query lib fo w' self' q2 =
        (fst (query lib fo w' self' q2), fst (snd (query lib fo w' self' q2)),
         snd (snd (query lib fo w' self' q2)))" by simp
    from query_calls [OF this e]
    show "calls (fst (snd (query lib fo w' self' q2))) = calls w' @ [EngineQuery qe q2]" .
  }
qed

text \<open>
  Instances: a templated query on the sample instance returns that instance and runs on
  its own engine; the query after it runs on the default engine.
\<close>

theorem custom_query_leaves_shared_state_witness:
  "snd (snd (custom_query sample_library sample_floats empty_world sample_rag sample_question
      (Some (of_ascii ''Answer briefly.'')))) = sample_rag \<and>
   calls (fst (snd (custom_query sample_library sample_floats empty_world sample_rag
      sample_question (Some (of_ascii ''Answer briefly.''))))) =
     [EngineQuery (as_query_engine [1, 2] (Some (qa_prompt (of_ascii ''Answer briefly.''))) 5 None)
        sample_question] \<and>
   calls (fst (snd (query sample_library sample_floats
      (fst (snd (custom_query sample_library sample_floats empty_world sample_rag
         sample_question (Some (of_ascii ''Answer briefly.'')))))
      sample_rag sample_question))) =
     [EngineQuery (as_query_engine [1, 2] (Some (qa_prompt (of_ascii ''Answer briefly.''))) 5 None)
        sample_question,
      EngineQuery (as_query_engine [1, 2] None 5 (Some (of_ascii ''compact''))) sample_question]"
proof -
  let ?c = "custom_query sample_library sample_floats empty_world sample_rag sample_question
      (Some (of_ascii ''Answer briefly.''))"
  have e: "?c = (fst ?c, fst (snd ?c), snd (snd ?c))" by simp
  have n: "of_ascii ''Answer briefly.'' \<noteq> []" "calls empty_world = []"
    by (simp_all add: of_ascii_def empty_world_def)
  let ?qe = "as_query_engine [1, 2] None 5 (Some (of_ascii ''compact''))"
  from custom_query_leaves_shared_state [OF e]
  have s: "snd (snd ?c) = sample_rag" by blast
  from custom_query_leaves_shared_state [OF e] sample_rag_fields n
  have c1: "calls (fst (snd ?c)) =
      [EngineQuery (as_query_engine [1, 2] (Some (qa_prompt (of_ascii ''Answer briefly.''))) 5 None)
        sample_question]"
    by simp
  from custom_query_leaves_shared_state [OF e] sample_rag_fields(1)
  have "calls (fst (snd (query sample_library sample_floats (fst (snd ?c)) (snd (snd ?c))
      sample_question))) = calls (fst (snd ?c)) @ [EngineQuery ?qe sample_question]"
    by blast
  with s c1 show ?thesis by simp
qed

text \<open>
  Claim C5. For a question that is not empty: when the engine raises during the query,
  the chat handler shows the fixed failure message with an empty source list and the
  error; the one call made is that query, the instance (and with it the index) and the
  settings are as before, and a following question that the engine answers is served
  with its answer and sources. Without a question, or with the empty one, the handler
  calls nothing and shows nothing.
\<close>

theorem query_failure_is_isolated:
  assumes "query_engine rag = Some qe"
    and "q \<noteq> []"
    and "engine_query lib w qe q = Inl e"
    and "chat_input lib fo w rag (Some q) = (out, w1, rag1)"
  shows "out = Some \<lparr>answer = failure_message, sources = [], st_error = Some e\<rparr> \<and>
     rag1 = rag \<and> Settings w1 = Settings w \<and> calls w1 = calls w @ [EngineQuery qe q] \<and>
     (\<forall>q2 resp. q2 \<noteq> [] \<and> engine_query lib w1 qe q2 = Inr resp \<longrightarrow>
        fst (chat_input lib fo w1 rag1 (Some q2)) =
          Some \<lparr>answer = response_str resp, sources = map dict_of (extract_sources fo resp),
                st_error = None\<rparr>) \<and>
     chat_input lib fo w rag None = (None, w, rag) \<and>
     chat_input lib fo w rag (Some []) = (None, w, rag)"
  using assms
  by (auto simp: chat_input_def query_def run_engine_def Let_def record_call_def
      split: sum.splits prod.splits)

text \<open>
  Instances: the question \<open>fail\<close> fails in the sample environment, and the question
  after it is answered.
\<close>

theorem query_failure_is_isolated_witness:
  "failing_question \<noteq> [] \<and> sample_question \<noteq> [] \<and>
   fst (chat_input sample_library sample_floats empty_world sample_rag (Some failing_question)) =
     Some \<lparr>answer = failure_message, sources = [],
           st_error = Some (LibraryError (of_ascii ''synthesis failed''))\<rparr> \<and>
   snd (snd (chat_input sample_library sample_floats empty_world sample_rag
     (Some failing_question))) = sample_rag \<and>
   fst (chat_input sample_library sample_floats
          (fst (snd (chat_input sample_library sample_floats empty_world sample_rag
             (Some failing_question))))
          (snd (snd (chat_input sample_library sample_floats empty_world sample_rag
             (Some failing_question))))
          (Some sample_question)) =
     Some \<lparr>answer = response_str sample_response,
           sources = map dict_of (extract_sources sample_floats sample_response),
           st_error = None\<rparr>"
proof -
  let ?c = "chat_input sample_library sample_floats empty_world sample_rag (Some failing_question)"
  have e: "?c = (fst ?c, fst (snd ?c), snd (snd ?c))" by simp
  have n: "failing_question \<noteq> []" "sample_question \<noteq> []"
    by (simp_all add: failing_question_def sample_question_def of_ascii_def)
  from query_failure_is_isolated [OF sample_rag_fields(1) n(1) sample_engine_query(1) e]
    sample_engine_query(2) n
  show ?thesis by blast
qed

text \<open>
  Claim C6. A successful \<open>query\<close> or \<open>custom_query\<close> makes one call, on an engine that
  for \<open>query\<close> is the instance's default engine, and returns the string of that
  engine's response and one entry per source node, in the order of the nodes. Each
  entry has exactly the keys \<open>file\<close>, \<open>score\<close> and \<open>text\<close>. The file is what follows the
  last slash of the node's file reference \<open>ref\<close>: the metadata's \<open>file_path\<close> when it is a
  non-empty string, else its \<open>file_name\<close> when that is one, else \<open>Unknown\<close>. The score
  is the node's score \<open>v\<close> rounded to three places when \<open>v\<close> is present and not zero,
  and zero rounded otherwise. The text is the preview of the node's text.
\<close>

theorem query_result_shape:
  assumes "query lib fo w self q = (Inr (a, ev), w', self') \<or>
     custom_query lib fo w self q sp = (Inr (a, ev), w', self')"
  shows "\<exists>qe resp.
     calls w' = calls w @ [EngineQuery qe q] \<and>
     (query lib fo w self q = (Inr (a, ev), w', self') \<longrightarrow> query_engine self = Some qe) \<and>
     engine_query lib w qe q = Inr resp \<and>
     a = response_str resp \<and>
     length ev = length (case source_nodes resp of None \<Rightarrow> [] | Some sns \<Rightarrow> sns) \<and>
     (\<forall>i < length ev.
        \<exists>f s t ref dir.
          ev ! i = [(of_ascii ''file'', Str f), (of_ascii ''score'', Float s),
                    (of_ascii ''text'', Str t)] \<and>
          ref = dir @ f \<and> (dir = [] \<or> last dir = 47) \<and> 47 \<notin> set f \<and>
          (\<forall>m p. metadata (node (the (source_nodes resp) ! i)) = Some m \<and>
             m (of_ascii ''file_path'') = Some (Some p) \<and> p \<noteq> [] \<longrightarrow> ref = p) \<and>
          (\<forall>m p. metadata (node (the (source_nodes resp) ! i)) = Some m \<and>
             m (of_ascii ''file_path'') \<in> {None, Some None, Some (Some [])} \<and>
             m (of_ascii ''file_name'') = Some (Some p) \<and> p \<noteq> [] \<longrightarrow> ref = p) \<and>
          (metadata (node (the (source_nodes resp) ! i)) = None \<or>
           (\<exists>m. metadata (node (the (source_nodes resp) ! i)) = Some m \<and>
              m (of_ascii ''file_path'') \<in> {None, Some None, Some (Some [])} \<and>
              m (of_ascii ''file_name'') \<in> {None, Some None, Some (Some [])}) \<longrightarrow>
             ref = of_ascii ''Unknown'') \<and>
          (\<forall>v. node_with_score.score (the (source_nodes resp) ! i) = Some v \<and> fl_truth fo v \<longrightarrow>
             s = fl_round3 fo v) \<and>
          (node_with_score.score (the (source_nodes resp) ! i) = None \<or>
           (\<exists>v. node_with_score.score (the (source_nodes resp) ! i) = Some v \<and>
              \<not> fl_truth fo v) \<longrightarrow>
             s = fl_round3 fo (fl_zero fo)) \<and>
          t = text_preview (node.text (node (the (source_nodes resp) ! i))))"
proof -
  have "\<exists>qe. run_engine lib fo w self qe q = (Inr (a, ev), w', self') \<and>
      (query lib fo w self q = (Inr (a, ev), w', self') \<longrightarrow> query_engine self = Some qe)"
  proof (cases "query lib fo w self q = (Inr (a, ev), w', self')")
    case True
    then show ?thesis by (auto simp: query_def split: option.splits)
  next
    case False
    with assms have "custom_query lib fo w self q sp = (Inr (a, ev), w', self')" by simp
    then have "\<exists>qe. run_engine lib fo w self qe q = (Inr (a, ev), w', self')"
      by (auto simp: custom_query_def split: option.splits if_splits)
    with False show ?thesis by blast
  qed
  then obtain qe where run: "run_engine lib fo w self qe q = (Inr (a, ev), w', self')"
    and dflt: "query lib fo w self q = (Inr (a, ev), w', self') \<longrightarrow> query_engine self = Some qe"
    by blast
  from run_engine_frame [OF run] have log: "calls w' = calls w @ [EngineQuery qe q]" by simp
  from run obtain resp where resp: "engine_query lib w qe q = Inr resp"
    and a: "a = response_str resp" and ev: "ev = map dict_of (extract_sources fo resp)"
    by (auto simp: run_engine_def Let_def split: sum.splits)
  let ?sns = "case source_nodes resp of None \<Rightarrow> [] | Some sns \<Rightarrow> sns"
  have len: "length ev = length ?sns" by (simp add: ev length_extract_sources)
  have ent: "\<forall>i < length ev. ev ! i = dict_of (source_preview fo (the (source_nodes resp) ! i))"
  proof (intro allI impI)
    fix i assume i: "i < length ev"
    with len have "the (source_nodes resp) = ?sns" by (cases "source_nodes resp") simp_all
    with i len show "ev ! i = dict_of (source_preview fo (the (source_nodes resp) ! i))"
      by (simp add: ev extract_sources_def)
  qed
  show ?thesis
  proof (rule exI [of _ qe], rule exI [of _ resp], intro conjI allI impI)
    show "calls w' = calls w @ [EngineQuery qe q]" by (rule log)
    show "engine_query lib w qe q = Inr resp" by (rule resp)
    show "a = response_str resp" by (rule a)
    show "length ev = length ?sns" by (rule len)
    show "query_engine self = Some qe" if "query lib fo w self q = (Inr (a, ev), w', self')"
      using that dflt by blast
  next
    fix i assume "i < length ev"
    with ent have e: "ev ! i = dict_of (source_preview fo (the (source_nodes resp) ! i))" by blast
    show "\<exists>f s t ref dir.
          ev ! i = [(of_ascii ''file'', Str f), (of_ascii ''score'', Float s),
                    (of_ascii ''text'', Str t)] \<and>
          ref = dir @ f \<and> (dir = [] \<or> last dir = 47) \<and> 47 \<notin> set f \<and>
          (\<forall>m p. metadata (node (the (source_nodes resp) ! i)) = Some m \<and>
             m (of_ascii ''file_path'') = Some (Some p) \<and> p \<noteq> [] \<longrightarrow> ref = p) \<and>
          (\<forall>m p. metadata (node (the (source_nodes resp) ! i)) = Some m \<and>
             m (of_ascii ''file_path'') \<in> {None, Some None, Some (Some [])} \<and>
             m (of_ascii ''file_name'') = Some (Some p) \<and> p \<noteq> [] \<longrightarrow> ref = p) \<and>
          (metadata (node (the (source_nodes resp) ! i)) = None \<or>
           (\<exists>m. metadata (node (the (source_nodes resp) ! i)) = Some m \<and>
              m (of_ascii ''file_path'') \<in> {None, Some None, Some (Some [])} \<and>
              m (of_ascii ''file_name'') \<in> {None, Some None, Some (Some [])}) \<longrightarrow>
             ref = of_ascii ''Unknown'') \<and>
          (\<forall>v. node_with_score.score (the (source_nodes resp) ! i) = Some v \<and> fl_truth fo v \<longrightarrow>
             s = fl_round3 fo v) \<and>
          (node_with_score.score (the (source_nodes resp) ! i) = None \<or>
           (\<exists>v. node_with_score.score (the (source_nodes resp) ! i) = Some v \<and>
              \<not> fl_truth fo v) \<longrightarrow>
             s = fl_round3 fo (fl_zero fo)) \<and>
          t = text_preview (node.text (node (the (source_nodes resp) ! i)))"
      unfolding e by (rule dict_of_source_preview)
  qed
qed

text \<open>
  Instances: the sample query succeeds on the default engine with two entries; the
  first has the file \<open>ana.pdf\<close> of \<open>/cvs/ana.pdf\<close> and the rounding of the score 8126,
  the second the defaults.
\<close>

theorem query_result_shape_witness:
  "\<exists>a ev w' self'.
     query sample_library sample_floats empty_world sample_rag sample_question =
       (Inr (a, ev), w', self') \<and>
     a = of_ascii ''Ana'' \<and> length ev = 2 \<and>
     calls w' = [EngineQuery (as_query_engine [1, 2] None 5 (Some (of_ascii ''compact'')))
                   sample_question] \<and>
     ev ! 0 = [(of_ascii ''file'', Str (of_ascii ''ana.pdf'')),
               (of_ascii ''score'', Float (fl_round3 sample_floats 8126)),
               (of_ascii ''text'', Str (of_ascii ''Python developer...''))] \<and>
     ev ! 1 = [(of_ascii ''file'', Str (of_ascii ''Unknown'')), (of_ascii ''score'', Float 0),
               (of_ascii ''text'', Str [])]"
proof -
  let ?qe = "as_query_engine [1, 2] None 5 (Some (of_ascii ''compact''))"
  let ?e0 = "[(of_ascii ''file'', Str (of_ascii ''ana.pdf'')), (of_ascii ''score'', Float (8130::int)),
          (of_ascii ''text'', Str (of_ascii ''Python developer...''))]"
  let ?e1 = "[(of_ascii ''file'', Str (of_ascii ''Unknown'')), (of_ascii ''score'', Float (0::int)),
          (of_ascii ''text'', Str [])]"
  let ?w = "record_call (EngineQuery ?qe sample_question) empty_world"
  from query_result_shape [OF disjI1 [OF sample_query]]
  obtain qe resp where r: "engine_query sample_library empty_world qe sample_question = Inr resp"
    and ent: "\<forall>i < length [?e0, ?e1].
        \<exists>f s t ref dir.
          [?e0, ?e1] ! i = [(of_ascii ''file'', Str f), (of_ascii ''score'', Float s),
                    (of_ascii ''text'', Str t)] \<and>
          ref = dir @ f \<and> (dir = [] \<or> last dir = 47) \<and> 47 \<notin> set f \<and>
          (\<forall>m p. metadata (node (the (source_nodes resp) ! i)) = Some m \<and>
             m (of_ascii ''file_path'') = Some (Some p) \<and> p \<noteq> [] \<longrightarrow> ref = p) \<and>
          (\<forall>m p. metadata (node (the (source_nodes resp) ! i)) = Some m \<and>
             m (of_ascii ''file_path'') \<in> {None, Some None, Some (Some [])} \<and>
             m (of_ascii ''file_name'') = Some (Some p) \<and> p \<noteq> [] \<longrightarrow> ref = p) \<and>
          (metadata (node (the (source_nodes resp) ! i)) = None \<or>
           (\<exists>m. metadata (node (the (source_nodes resp) ! i)) = Some m \<and>
              m (of_ascii ''file_path'') \<in> {None, Some None, Some (Some [])} \<and>
              m (of_ascii ''file_name'') \<in> {None, Some None, Some (Some [])}) \<longrightarrow>
             ref = of_ascii ''Unknown'') \<and>
          (\<forall>v. node_with_score.score (the (source_nodes resp) ! i) = Some v \<and>
             fl_truth sample_floats v \<longrightarrow> s = fl_round3 sample_floats v) \<and>
          (node_with_score.score (the (source_nodes resp) ! i) = None \<or>
           (\<exists>v. node_with_score.score (the (source_nodes resp) ! i) = Some v \<and>
              \<not> fl_truth sample_floats v) \<longrightarrow>
             s = fl_round3 sample_floats (fl_zero sample_floats)) \<and>
          t = text_preview (node.text (node (the (source_nodes resp) ! i)))"
    by blast
  from r have resp: "resp = sample_response" by (simp add: sample_engine_query)
  have n: "node_with_score.score (the (source_nodes sample_response) ! 0) = Some 8126"
    "fl_truth sample_floats 8126"
    by (simp_all add: sample_response_def sample_floats_def)
  from ent [rule_format, of 0] obtain s where
    "[?e0, ?e1] ! 0 = [(of_ascii ''file'', Str (of_ascii ''ana.pdf'')), (of_ascii ''score'', Float s),
        (of_ascii ''text'', Str (of_ascii ''Python developer...''))]"
    "\<forall>v. node_with_score.score (the (source_nodes resp) ! 0) = Some v \<and>
       fl_truth sample_floats v \<longrightarrow> s = fl_round3 sample_floats v"
    by auto
  with n resp have rounded: "fl_round3 sample_floats 8126 = 8130" by auto
  have "calls ?w = [EngineQuery ?qe sample_question]"
    by (simp add: record_call_def empty_world_def)
  with sample_query rounded show ?thesis by simp
qed



section \<open>Global settings\<close>

text \<open>
  Claim C9, as the source has it. \<open>__init__\<close> records no call and assigns the global
  settings in the order LLM, embedding model, node parser, each from a library
  constructor that may raise. A construction that completes leaves the settings equal
  to the configuration of its arguments, whatever they were, and returns an instance
  that holds none of the three, only the directories and \<open>top_k\<close>. A construction that
  raises returns no instance and leaves the settings assigned before the raise
  overwritten: none when the LLM is refused, the LLM when the embedding model is
  refused, both when the node parser is refused. No other method writes the settings.
  So every instance runs on the current global settings, which are those of the last
  completed construction only while no later construction has raised part-way.
\<close>

theorem init_writes_global_settings:
  assumes "new_CVScreenerRAG lib environ a w = (r, w')"
    and "L = or_default (arg_llm_model a) (DEFAULT_LLM_MODEL environ)"
    and "E = or_default (arg_embed_model a) (DEFAULT_EMBED_MODEL environ)"
    and "S = or_default (arg_chunk_size a) 512" and "V = or_default (arg_chunk_overlap a) 50"
    and "wl = w\<lparr>Settings := (Settings w)\<lparr>llm := Some L\<rparr>\<rparr>"
    and "we = w\<lparr>Settings := (Settings w)\<lparr>llm := Some L, embed_model := Some E\<rparr>\<rparr>"
  shows
   "calls w' = calls w \<and>
    (\<forall>e. LlamaOpenAI lib w L = Inl e \<longrightarrow> r = Inl e \<and> Settings w' = Settings w) \<and>
    (LlamaOpenAI lib w L = Inr () \<longrightarrow>
       (\<forall>e. OpenAIEmbedding lib wl E = Inl e \<longrightarrow>
          r = Inl e \<and> Settings w' = (Settings w)\<lparr>llm := Some L\<rparr>) \<and>
       (OpenAIEmbedding lib wl E = Inr () \<longrightarrow>
          (\<forall>e. SentenceSplitter lib we S V = Inl e \<longrightarrow>
             r = Inl e \<and> Settings w' = (Settings w)\<lparr>llm := Some L, embed_model := Some E\<rparr>) \<and>
          (SentenceSplitter lib we S V = Inr () \<longrightarrow> (\<exists>rag. r = Inr rag)))) \<and>
    (\<forall>rag. r = Inr rag \<longrightarrow>
       Settings w' = \<lparr>llm = Some L, embed_model = Some E, node_parser = Some (S, V)\<rparr> \<and>
       rag = \<lparr>cvs_dir = or_default (arg_cvs_dir a) (of_ascii ''cvs''),
              persist_dir = or_default (arg_persist_dir a) (of_ascii ''data/vector_store''),
              top_k = or_default (arg_top_k a) 5, index = None, query_engine = None\<rparr>) \<and>
    (load_or_create_index lib1 wa ra = (x1, wb, rb) \<longrightarrow> Settings wb = Settings wa) \<and>
    (query lib2 fo2 wc rc q2 = (x2, wd, rd) \<longrightarrow> Settings wd = Settings wc) \<and>
    (custom_query lib3 fo3 we3 re3 q3 sp3 = (x3, wf3, rf3) \<longrightarrow> Settings wf3 = Settings we3)"
proof -
  have f1: "load_or_create_index lib1 wa ra = (x1, wb, rb) \<longrightarrow> Settings wb = Settings wa"
    by (auto simp: load_or_create_index_def Let_def record_call_def split: if_splits sum.splits)
  have f2: "query lib2 fo2 wc rc q2 = (x2, wd, rd) \<longrightarrow> Settings wd = Settings wc"
    using query_frame by blast
  have f3: "custom_query lib3 fo3 we3 re3 q3 sp3 = (x3, wf3, rf3) \<longrightarrow> Settings wf3 = Settings we3"
    using custom_query_frame by blast
  have c: "calls w' = calls w"
    using assms(1) by (auto simp: new_CVScreenerRAG_def Let_def split: sum.splits)
  have n1: "\<forall>e. LlamaOpenAI lib w L = Inl e \<longrightarrow> r = Inl e \<and> Settings w' = Settings w"
    using assms(1-5) by (auto simp: new_CVScreenerRAG_def Let_def split: sum.splits)
  have n2: "LlamaOpenAI lib w L = Inr () \<longrightarrow>
       (\<forall>e. OpenAIEmbedding lib wl E = Inl e \<longrightarrow>
          r = Inl e \<and> Settings w' = (Settings w)\<lparr>llm := Some L\<rparr>) \<and>
       (OpenAIEmbedding lib wl E = Inr () \<longrightarrow>
          (\<forall>e. SentenceSplitter lib we S V = Inl e \<longrightarrow>
             r = Inl e \<and> Settings w' = (Settings w)\<lparr>llm := Some L, embed_model := Some E\<rparr>) \<and>
          (SentenceSplitter lib we S V = Inr () \<longrightarrow> (\<exists>rag. r = Inr rag)))"
    using assms by (simp add: new_CVScreenerRAG_def Let_def split: sum.splits) auto
  have s: "\<forall>rag. r = Inr rag \<longrightarrow>
       Settings w' = \<lparr>llm = Some L, embed_model = Some E, node_parser = Some (S, V)\<rparr> \<and>
       rag = \<lparr>cvs_dir = or_default (arg_cvs_dir a) (of_ascii ''cvs''),
              persist_dir = or_default (arg_persist_dir a) (of_ascii ''data/vector_store''),
              top_k = or_default (arg_top_k a) 5, index = None, query_engine = None\<rparr>"
    using assms(1-5) by (auto simp: new_CVScreenerRAG_def Let_def split: sum.splits)
  show ?thesis by (intro conjI c n1 n2 s f1 f2 f3)
qed

text \<open>
  Instances: the default construction sets the three default settings; a second one
  with another LLM and a chunk size of 10 raises at the node parser, with the LLM
  overwritten; with the embedding model \<open>bogus\<close> it raises there, with the LLM
  overwritten; with an empty LLM name it raises at once, with nothing overwritten;
  loading the index on the first instance leaves the settings alone.
\<close>

theorem init_writes_global_settings_witness:
  "new_CVScreenerRAG sample_library Map.empty no_args empty_world = (Inr fresh_rag, default_world) \<and>
   Settings default_world =
     \<lparr>llm = Some (of_ascii ''gpt-4o''), embed_model = Some (of_ascii ''text-embedding-3-small''),
      node_parser = Some (512, 50)\<rparr> \<and>
   fst (new_CVScreenerRAG sample_library Map.empty bad_args default_world) =
     Inl (LibraryError (of_ascii ''overlap larger than size'')) \<and>
   Settings (snd (new_CVScreenerRAG sample_library Map.empty bad_args default_world)) =
     (Settings default_world)\<lparr>llm := Some (of_ascii ''gpt-4o-mini''),
        embed_model := Some (of_ascii ''text-embedding-3-small'')\<rparr> \<and>
   fst (new_CVScreenerRAG sample_library Map.empty
          (bad_args\<lparr>arg_embed_model := Some (of_ascii ''bogus'')\<rparr>) default_world) =
     Inl (LibraryError (of_ascii ''not a valid model'')) \<and>
   Settings (snd (new_CVScreenerRAG sample_library Map.empty
          (bad_args\<lparr>arg_embed_model := Some (of_ascii ''bogus'')\<rparr>) default_world)) =
     (Settings default_world)\<lparr>llm := Some (of_ascii ''gpt-4o-mini'')\<rparr> \<and>
   fst (new_CVScreenerRAG sample_library Map.empty
          (no_args\<lparr>arg_llm_model := Some []\<rparr>) default_world) =
     Inl (LibraryError (of_ascii ''no model'')) \<and>
   Settings (snd (new_CVScreenerRAG sample_library Map.empty
          (no_args\<lparr>arg_llm_model := Some []\<rparr>) default_world)) = Settings default_world \<and>
   Settings (fst (snd (load_or_create_index sample_library default_world fresh_rag))) =
     Settings default_world"
proof -
  let ?bogus = "bad_args\<lparr>arg_embed_model := Some (of_ascii ''bogus'')\<rparr>"
  let ?nollm = "no_args\<lparr>arg_llm_model := Some []\<rparr>"
  let ?n = "new_CVScreenerRAG sample_library Map.empty bad_args default_world"
  let ?m = "new_CVScreenerRAG sample_library Map.empty ?bogus default_world"
  let ?k = "new_CVScreenerRAG sample_library Map.empty ?nollm default_world"
  let ?l = "load_or_create_index sample_library default_world fresh_rag"
  have e: "?n = (fst ?n, snd ?n)" "?m = (fst ?m, snd ?m)" "?k = (fst ?k, snd ?k)"
    and f: "?l = (fst ?l, fst (snd ?l), snd (snd ?l))" by simp_all
  have d: "of_ascii ''gpt-4o'' = or_default (arg_llm_model no_args) (DEFAULT_LLM_MODEL Map.empty)"
    "of_ascii ''gpt-4o-mini'' = or_default (arg_llm_model bad_args) (DEFAULT_LLM_MODEL Map.empty)"
    "of_ascii ''text-embedding-3-small'' =
       or_default (arg_embed_model no_args) (DEFAULT_EMBED_MODEL Map.empty)"
    "of_ascii ''text-embedding-3-small'' =
       or_default (arg_embed_model bad_args) (DEFAULT_EMBED_MODEL Map.empty)"
    "512 = or_default (arg_chunk_size no_args) 512" "10 = or_default (arg_chunk_size bad_args) 512"
    "50 = or_default (arg_chunk_overlap no_args) 50"
    "50 = or_default (arg_chunk_overlap bad_args) 50"
    "of_ascii ''gpt-4o-mini'' = or_default (arg_llm_model ?bogus) (DEFAULT_LLM_MODEL Map.empty)"
    "of_ascii ''bogus'' = or_default (arg_embed_model ?bogus) (DEFAULT_EMBED_MODEL Map.empty)"
    "[] = or_default (arg_llm_model ?nollm) (DEFAULT_LLM_MODEL Map.empty)"
    by (simp_all add: or_default_def no_args_def bad_args_def DEFAULT_LLM_MODEL_def
        DEFAULT_EMBED_MODEL_def)
  have h: "LlamaOpenAI sample_library w1 (of_ascii ''gpt-4o-mini'') = Inr ()"
    "OpenAIEmbedding sample_library w2 (of_ascii ''text-embedding-3-small'') = Inr ()"
    "SentenceSplitter sample_library w3 10 50 =
       Inl (LibraryError (of_ascii ''overlap larger than size''))"
    "OpenAIEmbedding sample_library w2 (of_ascii ''bogus'') =
       Inl (LibraryError (of_ascii ''not a valid model''))"
    "LlamaOpenAI sample_library w1 [] = Inl (LibraryError (of_ascii ''no model''))"
    for w1 w2 w3 :: "(nat list, nat) world"
    by (simp_all add: sample_library_def of_ascii_def)
  have a: "Settings default_world =
     \<lparr>llm = Some (of_ascii ''gpt-4o''), embed_model = Some (of_ascii ''text-embedding-3-small''),
      node_parser = Some (512, 50)\<rparr>"
    using init_writes_global_settings [OF sample_new d(1) d(3) d(5) d(7) refl refl,
        THEN conjunct2, THEN conjunct2, THEN conjunct2, THEN conjunct1, rule_format, OF refl]
    by (rule conjunct1)
  have b: "fst ?n = Inl (LibraryError (of_ascii ''overlap larger than size'')) \<and>
     Settings (snd ?n) = (Settings default_world)\<lparr>llm := Some (of_ascii ''gpt-4o-mini''),
        embed_model := Some (of_ascii ''text-embedding-3-small'')\<rparr>"
    using init_writes_global_settings [OF e(1) d(2) d(4) d(6) d(8) refl refl,
        THEN conjunct2, THEN conjunct2, THEN conjunct1, THEN mp, OF h(1),
        THEN conjunct2, THEN mp, OF h(2), THEN conjunct1, rule_format, OF h(3)]
    by simp
  have m: "fst ?m = Inl (LibraryError (of_ascii ''not a valid model'')) \<and>
     Settings (snd ?m) = (Settings default_world)\<lparr>llm := Some (of_ascii ''gpt-4o-mini'')\<rparr>"
    using init_writes_global_settings [OF e(2) d(9) d(10) refl refl refl refl,
        THEN conjunct2, THEN conjunct2, THEN conjunct1, THEN mp, OF h(1),
        THEN conjunct1, rule_format, OF h(4)]
    by simp
  have k: "fst ?k = Inl (LibraryError (of_ascii ''no model'')) \<and>
     Settings (snd ?k) = Settings default_world"
    using init_writes_global_settings [OF e(3) d(11) refl refl refl refl refl,
        THEN conjunct2, THEN conjunct1, rule_format, OF h(5)]
    by simp
  have c: "Settings (fst (snd ?l)) = Settings default_world"
    using init_writes_global_settings [OF e(1) refl refl refl refl refl refl,
        where ?lib1.0 = sample_library and wa = default_world and ra = fresh_rag
          and ?x1.0 = "fst ?l" and wb = "fst (snd ?l)" and rb = "snd (snd ?l)",
        THEN conjunct2, THEN conjunct2, THEN conjunct2, THEN conjunct2, THEN conjunct1,
        THEN mp, OF f]
    by simp
  from sample_new a b m k c show ?thesis by blast
qed

text \<open>
  Claim C9 as stated fails after a construction that raises: the only instance
  constructed is the default one, and the settings it runs on are no longer those it
  set, since the failed construction has overwritten the LLM.
\<close>

theorem failed_construction_changes_settings:
  "new_CVScreenerRAG sample_library Map.empty no_args empty_world = (Inr fresh_rag, default_world) \<and>
   fst (new_CVScreenerRAG sample_library Map.empty bad_args default_world) =
     Inl (LibraryError (of_ascii ''overlap larger than size'')) \<and>
   llm (Settings (snd (new_CVScreenerRAG sample_library Map.empty bad_args default_world))) =
     Some (of_ascii ''gpt-4o-mini'') \<and>
   Settings (snd (new_CVScreenerRAG sample_library Map.empty bad_args default_world)) \<noteq>
     Settings default_world"
  by (simp add: new_CVScreenerRAG_def Let_def sample_defs bad_args_def DEFAULT_LLM_MODEL_def
      DEFAULT_EMBED_MODEL_def of_ascii_def)

section \<open>Totality of the source extraction\<close>

text \<open>
  Claim C10. \<open>_extract_sources\<close> yields one preview for every source node. For a node
  whose metadata is \<open>None\<close>, or has \<open>file_path\<close> and \<open>file_name\<close> missing, \<open>None\<close> or
  empty, the file is \<open>Unknown\<close>; for a score of \<open>None\<close> the score is zero rounded to
  three places (which is zero when rounding zero gives zero); for a text that is
  \<open>None\<close> or empty the preview is empty.
\<close>

theorem extract_sources_is_total:
  "length (extract_sources fo r) = length (case source_nodes r of None \<Rightarrow> [] | Some sns \<Rightarrow> sns) \<and>
   (\<forall>i < length (extract_sources fo r).
      (metadata (node (the (source_nodes r) ! i)) = None \<or>
       (\<exists>m. metadata (node (the (source_nodes r) ! i)) = Some m \<and>
          m (of_ascii ''file_path'') \<in> {None, Some None, Some (Some [])} \<and>
          m (of_ascii ''file_name'') \<in> {None, Some None, Some (Some [])}) \<longrightarrow>
         file (extract_sources fo r ! i) = of_ascii ''Unknown'') \<and>
      (node_with_score.score (the (source_nodes r) ! i) = None \<longrightarrow>
         SourcePreview.score (extract_sources fo r ! i) = fl_round3 fo (fl_zero fo) \<and>
         (fl_round3 fo (fl_zero fo) = fl_zero fo \<longrightarrow>
            SourcePreview.score (extract_sources fo r ! i) = fl_zero fo)) \<and>
      (node.text (node (the (source_nodes r) ! i)) \<in> {None, Some []} \<longrightarrow>
         SourcePreview.text (extract_sources fo r ! i) = []))"
proof (intro conjI allI impI)
  show "length (extract_sources fo r) = length (case source_nodes r of None \<Rightarrow> [] | Some sns \<Rightarrow> sns)"
    by (rule length_extract_sources)
next
  fix i assume i: "i < length (extract_sources fo r)"
  let ?sn = "the (source_nodes r) ! i"
  from i have e: "extract_sources fo r ! i = source_preview fo ?sn"
    by (cases "source_nodes r") (simp_all add: extract_sources_def)
  {
    assume "metadata (node ?sn) = None \<or>
       (\<exists>m. metadata (node ?sn) = Some m \<and>
          m (of_ascii ''file_path'') \<in> {None, Some None, Some (Some [])} \<and>
          m (of_ascii ''file_name'') \<in> {None, Some None, Some (Some [])})"
    then have "file_name_of (node ?sn) = of_ascii ''Unknown''" by (rule file_name_of_missing)
    then show "file (extract_sources fo r ! i) = of_ascii ''Unknown''"
      by (simp add: e source_preview_def basename_def of_ascii_def)
  }
  {
    assume n: "node_with_score.score ?sn = None"
    then show 1: "SourcePreview.score (extract_sources fo r ! i) = fl_round3 fo (fl_zero fo)"
      by (simp add: e source_preview_def score_or_zero_def)
    assume "fl_round3 fo (fl_zero fo) = fl_zero fo"
    with 1 show "SourcePreview.score (extract_sources fo r ! i) = fl_zero fo" by simp
  }
  {
    assume "node.text (node ?sn) \<in> {None, Some []}"
    then show "SourcePreview.text (extract_sources fo r ! i) = []"
      by (auto simp: e source_preview_def text_preview_def strip_def)
  }
qed

text \<open>
  Instances: the second node of the sample response has no metadata, score or text.
\<close>

theorem extract_sources_is_total_witness:
  "length (extract_sources sample_floats sample_response) = 2 \<and>
   file (extract_sources sample_floats sample_response ! 1) = of_ascii ''Unknown'' \<and>
   SourcePreview.score (extract_sources sample_floats sample_response ! 1) = 0 \<and>
   SourcePreview.text (extract_sources sample_floats sample_response ! 1) = []"
proof -
  let ?sn = "the (source_nodes sample_response) ! 1"
  have h: "metadata (node ?sn) = None" "node_with_score.score ?sn = None"
    "node.text (node ?sn) \<in> {None, Some []}"
    "fl_round3 sample_floats (fl_zero sample_floats) = fl_zero sample_floats"
    "fl_zero sample_floats = 0"
    "length (case source_nodes sample_response of None \<Rightarrow> [] | Some sns \<Rightarrow> sns) = 2"
    by (simp_all add: sample_response_def sample_floats_def)
  have len: "length (extract_sources sample_floats sample_response) = 2"
    using extract_sources_is_total [of sample_floats sample_response, THEN conjunct1] h(6)
    by simp
  then have "1 < length (extract_sources sample_floats sample_response)" by simp
  from extract_sources_is_total [of sample_floats sample_response, THEN conjunct2,
      rule_format, OF this] h(1-4)
  have "file (extract_sources sample_floats sample_response ! 1) = of_ascii ''Unknown'' \<and>
    SourcePreview.score (extract_sources sample_floats sample_response ! 1) =
      fl_zero sample_floats \<and>
    SourcePreview.text (extract_sources sample_floats sample_response ! 1) = []"
    by blast
  with len h(5) show ?thesis by simp
qed

end
